theory Spec2Isabelle
  imports Complex_Main "HOL-Library.Char_ord" "HOL-Library.List_Lexorder" "HOL-Library.Multiset"
begin

section \<open>JavaScript and platform primitives used by the service\<close>

text \<open>
  JavaScript strings are modelled as \<open>string\<close>. Numbers that the service only uses as
  non-negative integers (sizes, counters, ids, timestamps) are \<open>nat\<close>; query parameters
  parsed with \<open>parseInt\<close> are \<open>int\<close>; the SQL average is an exact rational.
\<close>

text \<open>\<open>String.prototype.charAt\<close>: the character at the index, or the empty string.\<close>

definition charAt :: "string \<Rightarrow> nat \<Rightarrow> string" where
  "charAt s i = (if i < length s then [s ! i] else [])"

text \<open>Decimal rendering of a non-negative integer, as string interpolation does.\<close>

fun digits :: "nat \<Rightarrow> string" where
  "digits n =
     (if n < 10 then [''0123456789'' ! n]
      else digits (n div 10) @ [''0123456789'' ! (n mod 10)])"

declare digits.simps [simp del]

text \<open>\<open>Array.prototype.join\<close> with a separator.\<close>

fun joinWith :: "string \<Rightarrow> string list \<Rightarrow> string" where
  "joinWith sep [] = []"
| "joinWith sep [x] = x"
| "joinWith sep (x # y # ys) = x @ sep @ joinWith sep (y # ys)"

text \<open>Splitting at every occurrence of a character; the result is never empty.\<close>

fun splitOn :: "char \<Rightarrow> string \<Rightarrow> string list" where
  "splitOn c [] = [[]]"
| "splitOn c (x # xs) =
     (if x = c then [] # splitOn c xs
      else (case splitOn c xs of
              [] \<Rightarrow> [[x]]
            | s # ss \<Rightarrow> (x # s) # ss))"

subsection \<open>POSIX \<open>path\<close> module\<close>

text \<open>
  \<open>normalizeString(path, allowAboveRoot)\<close>: empty and \<open>.\<close> segments are dropped, a
  \<open>..\<close> segment removes the segment before it; at the start it is kept only when
  \<open>allowAboveRoot\<close> holds. The accumulator holds the kept segments, last one first.
\<close>

fun normalizeString :: "bool \<Rightarrow> string list \<Rightarrow> string list \<Rightarrow> string list" where
  "normalizeString allowAboveRoot acc [] = rev acc"
| "normalizeString allowAboveRoot acc (s # ss) =
     (if s = [] \<or> s = ''.'' then normalizeString allowAboveRoot acc ss
      else if s = ''..'' then
        (case acc of
           [] \<Rightarrow> normalizeString allowAboveRoot (if allowAboveRoot then [''..''] else []) ss
         | t # ts \<Rightarrow>
             if t = ''..''
             then normalizeString allowAboveRoot (if allowAboveRoot then ''..'' # acc else acc) ss
             else normalizeString allowAboveRoot ts ss)
      else normalizeString allowAboveRoot (s # acc) ss)"

definition path_normalize :: "string \<Rightarrow> string" where
  "path_normalize p =
     (if p = [] then ''.''
      else
        let isAbsolute = (hd p = CHR ''/'');
            trailingSeparator = (last p = CHR ''/'');
            res = joinWith ''/'' (normalizeString (\<not> isAbsolute) [] (splitOn (CHR ''/'') p))
        in if res = [] then (if isAbsolute then ''/'' else if trailingSeparator then ''./'' else ''.'')
           else (if isAbsolute then ''/'' else []) @ res @ (if trailingSeparator then ''/'' else []))"

definition path_join :: "string list \<Rightarrow> string" where
  "path_join args =
     (let parts = filter (\<lambda>a. a \<noteq> []) args
      in if parts = [] then ''.'' else path_normalize (joinWith ''/'' parts))"

text \<open>
  \<open>path.resolve(p)\<close> against the working directory \<open>cwd\<close> of the process (an absolute
  path): the result is absolute, normalised and has no trailing separator.
\<close>

definition path_resolve :: "string \<Rightarrow> string \<Rightarrow> string" where
  "path_resolve cwd p =
     (let full = (if p \<noteq> [] \<and> hd p = CHR ''/'' then p else cwd @ ''/'' @ p)
      in ''/'' @ joinWith ''/'' (normalizeString False [] (splitOn (CHR ''/'') full)))"

text \<open>
  \<open>path.extname\<close>: trailing separators are ignored, only the last segment counts; the
  extension runs from the last dot of that segment to its end, and is empty when there is
  no dot, when the last dot is the first character, or when the segment is \<open>..\<close>.
\<close>

definition stripTrailingSlashes :: "string \<Rightarrow> string" where
  "stripTrailingSlashes p = rev (dropWhile (\<lambda>c. c = CHR ''/'') (rev p))"

definition lastSegment :: "string \<Rightarrow> string" where
  "lastSegment p = rev (takeWhile (\<lambda>c. c \<noteq> CHR ''/'') (rev (stripTrailingSlashes p)))"

definition extname :: "string \<Rightarrow> string" where
  "extname p =
     (let base = lastSegment p;
          afterDot = rev (takeWhile (\<lambda>c. c \<noteq> CHR ''.'') (rev base));
          startDot = length base - length afterDot - 1
      in if CHR ''.'' \<notin> set base \<or> startDot = 0 \<or> base = ''..'' then []
         else drop startDot base)"

text \<open>Whether a path lies strictly below a directory.\<close>

definition withinDir :: "string \<Rightarrow> string \<Rightarrow> bool" where
  "withinDir dir p =
     (length dir + 1 < length p \<and> take (length dir + 1) p = dir @ ''/'')"

section \<open>Configuration\<close>

record config =
  PORT :: string
  UPLOAD_DIR :: string
  MAX_FILE_SIZE :: nat
  SHORT_URL_LENGTH :: nat
  ALLOW_ALL_TYPES :: bool

text \<open>
  \<open>CONFIG\<close> depends on the process environment: the working directory and the value of
  \<open>process.env.PORT\<close>, if set.
\<close>

definition CONFIG :: "string \<Rightarrow> string option \<Rightarrow> config" where
  "CONFIG cwd envPort =
     \<lparr> PORT = (case envPort of None \<Rightarrow> ''8000'' | Some p \<Rightarrow> if p = [] then ''8000'' else p),
       UPLOAD_DIR = path_resolve cwd ''./public/file'',
       MAX_FILE_SIZE = 50 * 1024 * 1024,
       SHORT_URL_LENGTH = 6,
       ALLOW_ALL_TYPES = True \<rparr>"

section \<open>The store: \<open>DatabaseManager\<close> over the \<open>urls\<close> table\<close>

text \<open>
  \<open>url_data\<close> is \<open>Omit<UrlRecord, 'id' | 'accessCount' | 'lastAccessedAt'>\<close>, the argument
  of \<open>insertUrl\<close>; \<open>url_record\<close> adds the three columns the table fills in itself. Rows
  are only created by \<open>insertUrl\<close>, so \<open>id\<close> and \<open>accessCount\<close> are never NULL.
  The columns \<open>id\<close> and \<open>size\<close> are named \<open>id_col\<close> and \<open>size_col\<close>.
\<close>

record url_data =
  shortCode :: string
  filename :: string
  originalName :: string
  uploadedAt :: string
  size_col :: nat
  mimetype :: string

record url_record = url_data +
  id_col :: nat
  accessCount :: nat
  lastAccessedAt :: "string option"

text \<open>
  The table in rowid order, the AUTOINCREMENT sequence (the largest id ever assigned) and
  the connection's count of rows changed by the last INSERT, UPDATE or DELETE.
\<close>

record database =
  rows :: "url_record list"
  seq :: nat
  changes :: nat

text \<open>\<open>DatabaseManager.db\<close> is \<open>null\<close> until \<open>init\<close> has run.\<close>

type_synonym db_handle = "database option"

text \<open>
  The exceptions the store and the disk raise. The text of \<open>FilesystemError\<close> stands for
  the message of the runtime, which names the system call and the path; nothing below
  depends on it.
\<close>

datatype error =
  DatabaseNotInitialized | ConstraintViolation | DatatypeMismatch | FilesystemError

fun error_message :: "error \<Rightarrow> string" where
  "error_message DatabaseNotInitialized = ''Database not initialized''"
| "error_message ConstraintViolation = ''UNIQUE constraint failed: urls.shortCode''"
| "error_message DatatypeMismatch = ''datatype mismatch''"
| "error_message FilesystemError = ''EACCES: permission denied''"

text \<open>
  The numbers that reach \<open>LIMIT ?\<close> and \<open>OFFSET ?\<close> are JavaScript numbers that hold
  the result of \<open>parseInt\<close> or a default: \<open>NaN\<close>, an infinity (from a parameter of
  several hundred digits), or a whole number. Bound to the statement, a whole number strictly
  between \<open>-2^63\<close> and \<open>2^63\<close> becomes the SQL integer; any other value cannot be
  converted and the statement fails with \<open>datatype mismatch\<close>.
\<close>

datatype js_number = NaN | PosInfinity | NegInfinity | Finite int

definition sqlBind :: "js_number \<Rightarrow> error + int" where
  "sqlBind v =
     (case v of
        Finite x \<Rightarrow> if - (2 ^ 63) < x \<and> x < 2 ^ 63 then Inr x else Inl DatatypeMismatch
      | other \<Rightarrow> Inl DatatypeMismatch)"

text \<open>\<open>init\<close> on a fresh database file: the table is created empty.\<close>

definition init :: db_handle where
  "init = Some \<lparr> rows = [], seq = 0, changes = 0 \<rparr>"

definition insertUrl :: "db_handle \<Rightarrow> url_data \<Rightarrow> error + db_handle" where
  "insertUrl db data =
     (case db of
        None \<Rightarrow> Inl DatabaseNotInitialized
      | Some d \<Rightarrow>
          if \<exists>r \<in> set (rows d). shortCode r = shortCode data then Inl ConstraintViolation
          else Inr (Some (d \<lparr> rows := rows d @
                                [\<lparr> shortCode = shortCode data, filename = filename data,
                                   originalName = originalName data, uploadedAt = uploadedAt data,
                                   size_col = size_col data, mimetype = mimetype data,
                                   id_col = Suc (seq d), accessCount = 0, lastAccessedAt = None \<rparr>],
                              seq := Suc (seq d), changes := 1 \<rparr>)))"

definition getUrlByShortCode :: "db_handle \<Rightarrow> string \<Rightarrow> error + url_record option" where
  "getUrlByShortCode db code =
     (case db of
        None \<Rightarrow> Inl DatabaseNotInitialized
      | Some d \<Rightarrow> Inr (find (\<lambda>r. shortCode r = code) (rows d)))"

definition isShortCodeUsed :: "db_handle \<Rightarrow> string \<Rightarrow> error + bool" where
  "isShortCodeUsed db code =
     (case db of
        None \<Rightarrow> Inl DatabaseNotInitialized
      | Some d \<Rightarrow> Inr (length (filter (\<lambda>r. shortCode r = code) (rows d)) > 0))"

text \<open>The second argument is the value of \<open>new Date().toISOString()\<close> at the call.\<close>

definition incrementAccessCount :: "db_handle \<Rightarrow> string \<Rightarrow> string \<Rightarrow> error + db_handle" where
  "incrementAccessCount db now code =
     (case db of
        None \<Rightarrow> Inl DatabaseNotInitialized
      | Some d \<Rightarrow>
          Inr (Some (d \<lparr> rows := map (\<lambda>r. if shortCode r = code
                                           then r \<lparr> accessCount := accessCount r + 1,
                                                    lastAccessedAt := Some now \<rparr>
                                           else r) (rows d),
                          changes := length (filter (\<lambda>r. shortCode r = code) (rows d)) \<rparr>)))"

text \<open>
  \<open>ORDER BY uploadedAt DESC\<close>: text compares bytewise; rows with equal keys come out
  latest rowid first, as the backward scan of the index on \<open>uploadedAt\<close> yields them.
  \<open>ORDER BY accessCount DESC\<close> has no index and is sorted: rows with equal counts stay
  in rowid order.
\<close>

definition orderByUploadedAtDesc :: "url_record list \<Rightarrow> url_record list" where
  "orderByUploadedAtDesc rs = rev (sort_key uploadedAt rs)"

definition orderByAccessCountDesc :: "url_record list \<Rightarrow> url_record list" where
  "orderByAccessCountDesc rs = rev (sort_key accessCount (rev rs))"

text \<open>
  \<open>LIMIT l OFFSET o\<close> of SQLite: a negative limit means no limit, a negative offset
  counts as zero.
\<close>

definition sqlLimitOffset :: "int \<Rightarrow> int \<Rightarrow> 'a list \<Rightarrow> 'a list" where
  "sqlLimitOffset l off xs =
     (let ys = drop (nat off) xs in if l < 0 then ys else take (nat l) ys)"

definition getAllUrls ::
  "db_handle \<Rightarrow> js_number \<Rightarrow> js_number \<Rightarrow> error + url_record list" where
  "getAllUrls db limit offset =
     (case db of
        None \<Rightarrow> Inl DatabaseNotInitialized
      | Some d \<Rightarrow>
          (case sqlBind limit of
             Inl e \<Rightarrow> Inl e
           | Inr l \<Rightarrow>
               (case sqlBind offset of
                  Inl e \<Rightarrow> Inl e
                | Inr off \<Rightarrow> Inr (sqlLimitOffset l off (orderByUploadedAtDesc (rows d))))))"

definition getTotalCount :: "db_handle \<Rightarrow> error + nat" where
  "getTotalCount db =
     (case db of
        None \<Rightarrow> Inl DatabaseNotInitialized
      | Some d \<Rightarrow> Inr (length (rows d)))"

text \<open>
  The aggregates \<open>SUM\<close> and \<open>AVG\<close> are NULL over no rows; \<open>x || 0\<close> turns NULL (and
  zero) into zero.
\<close>

definition sqlSum :: "nat list \<Rightarrow> nat option" where
  "sqlSum xs = (if xs = [] then None else Some (sum_list xs))"

definition sqlAvg :: "nat list \<Rightarrow> rat option" where
  "sqlAvg xs = (if xs = [] then None else Some (of_nat (sum_list xs) / of_nat (length xs)))"

definition orZero :: "'a::zero option \<Rightarrow> 'a" where
  "orZero v = (case v of None \<Rightarrow> 0 | Some x \<Rightarrow> if x = 0 then 0 else x)"

record stats =
  totalUrls :: nat
  totalSize :: nat
  totalAccess :: nat
  avgFileSize :: rat

definition getStats :: "db_handle \<Rightarrow> error + stats" where
  "getStats db =
     (case db of
        None \<Rightarrow> Inl DatabaseNotInitialized
      | Some d \<Rightarrow>
          Inr \<lparr> totalUrls = orZero (Some (length (rows d))),
                totalSize = orZero (sqlSum (map size_col (rows d))),
                totalAccess = orZero (sqlSum (map accessCount (rows d))),
                avgFileSize = orZero (sqlAvg (map size_col (rows d))) \<rparr>)"

text \<open>
  \<open>deleteUrl\<close> runs the DELETE, drops what \<open>stmt.run\<close> returns and reads
  \<open>this.db.changes\<close>. The \<open>Database\<close> object of \<open>bun:sqlite\<close> has no member of that
  name (the change count is a field of the value \<open>run\<close> returns), so the read yields
  \<open>undefined\<close> whatever the statement did, and \<open>undefined > 0\<close> is false.
\<close>

definition changesProperty :: "database \<Rightarrow> nat option" where
  "changesProperty d = None"

definition jsGreater :: "nat option \<Rightarrow> nat \<Rightarrow> bool" where
  "jsGreater v n = (case v of None \<Rightarrow> False | Some x \<Rightarrow> n < x)"

definition deleteUrl :: "db_handle \<Rightarrow> string \<Rightarrow> error + (bool \<times> db_handle)" where
  "deleteUrl db code =
     (case db of
        None \<Rightarrow> Inl DatabaseNotInitialized
      | Some d \<Rightarrow>
          let d' = d \<lparr> rows := filter (\<lambda>r. shortCode r \<noteq> code) (rows d),
                       changes := length (filter (\<lambda>r. shortCode r = code) (rows d)) \<rparr>
          in Inr (jsGreater (changesProperty d') 0, Some d'))"

text \<open>
  The LIKE operator of SQLite without ESCAPE: \<open>%\<close> matches any run of characters, \<open>_\<close>
  one character, every other character itself up to the case of ASCII letters.
\<close>

definition asciiLower :: "char \<Rightarrow> char" where
  "asciiLower c =
     (let n = (of_char c :: nat) in if 65 \<le> n \<and> n \<le> 90 then char_of (n + 32) else c)"



definition getMostAccessedUrls :: "db_handle \<Rightarrow> js_number \<Rightarrow> error + url_record list" where
  "getMostAccessedUrls db limit =
     (case db of
        None \<Rightarrow> Inl DatabaseNotInitialized
      | Some d \<Rightarrow>
          (case sqlBind limit of
             Inl e \<Rightarrow> Inl e
           | Inr l \<Rightarrow>
               Inr (sqlLimitOffset l 0
                     (orderByAccessCountDesc (filter (\<lambda>r. accessCount r > 0) (rows d))))))"

definition getRecentUploads :: "db_handle \<Rightarrow> js_number \<Rightarrow> error + url_record list" where
  "getRecentUploads db limit =
     (case db of
        None \<Rightarrow> Inl DatabaseNotInitialized
      | Some d \<Rightarrow>
          (case sqlBind limit of
             Inl e \<Rightarrow> Inl e
           | Inr l \<Rightarrow> Inr (sqlLimitOffset l 0 (orderByUploadedAtDesc (rows d)))))"

section \<open>Short codes\<close>

definition chars :: string where
  "chars = ''ABCDEFGHIJKLMNOPQRSTUVWXYZabcdefghijklmnopqrstuvwxyz0123456789''"

text \<open>
  The random source is the sequence \<open>rnd\<close> of the values
  \<open>Math.floor(Math.random() * chars.length)\<close> that the process draws, read from position
  \<open>pos\<close> on. \<open>Math.random()\<close> lies in \<open>[0, 1)\<close>, so every such value is below 62.
\<close>

fun generateShortCode :: "(nat \<Rightarrow> nat) \<Rightarrow> nat \<Rightarrow> nat \<Rightarrow> string" where
  "generateShortCode rnd pos 0 = []"
| "generateShortCode rnd pos (Suc n) = charAt chars (rnd pos) @ generateShortCode rnd (Suc pos) n"

definition maxAttempts :: nat where
  "maxAttempts = 10"

function generateUniqueShortCode_loop ::
  "config \<Rightarrow> db_handle \<Rightarrow> (nat \<Rightarrow> nat) \<Rightarrow> nat \<Rightarrow> nat \<Rightarrow> error + string" where
  "generateUniqueShortCode_loop cfg db rnd pos attempts =
     (if attempts < maxAttempts then
        (let code = generateShortCode rnd pos (SHORT_URL_LENGTH cfg) in
         case isShortCodeUsed db code of
           Inl e \<Rightarrow> Inl e
         | Inr isUsed \<Rightarrow>
             if \<not> isUsed then Inr code
             else generateUniqueShortCode_loop cfg db rnd (pos + SHORT_URL_LENGTH cfg) (attempts + 1))
      else Inr (generateShortCode rnd pos (SHORT_URL_LENGTH cfg + 2)))"
  by pat_completeness auto
termination
  by (relation "measure (\<lambda>(cfg, db, rnd, pos, attempts). maxAttempts - attempts)") auto

declare generateUniqueShortCode_loop.simps [simp del]

definition generateUniqueShortCode :: "config \<Rightarrow> db_handle \<Rightarrow> (nat \<Rightarrow> nat) \<Rightarrow> error + string" where
  "generateUniqueShortCode cfg db rnd = generateUniqueShortCode_loop cfg db rnd 0 0"

text \<open>The test \<open>/^[A-Za-z0-9]{6,8}$/\<close>.\<close>

definition isAlnum :: "char \<Rightarrow> bool" where
  "isAlnum c =
     (let n = (of_char c :: nat)
      in (65 \<le> n \<and> n \<le> 90) \<or> (97 \<le> n \<and> n \<le> 122) \<or> (48 \<le> n \<and> n \<le> 57))"

definition validShortCode :: "string \<Rightarrow> bool" where
  "validShortCode s = (6 \<le> length s \<and> length s \<le> 8 \<and> list_all isAlnum s)"

section \<open>\<open>formatBytes\<close>\<close>

text \<open>
  The floating-point computation is modelled with exact arithmetic:
  \<open>Math.floor(Math.log(bytes) / Math.log(1024))\<close> is the integer logarithm,
  \<open>toFixed(2)\<close> rounds half up to hundredths, and \<open>parseFloat\<close> followed by string
  concatenation prints the result without trailing zeros. An index outside the table
  \<open>sizes\<close> prints as \<open>undefined\<close>. The zero test comes first, as in the source.
  The doubles of the source can differ from the exact values in the last digit: where the
  exact quotient lies half-way between two hundredths \<open>toFixed\<close> may round down, and just
  below a power of 1024 the quotient of the logarithms may reach the next integer. The
  properties below use \<open>formatBytes\<close> at 0 and at the maximum file size only, where
  both agree.
\<close>

fun floorLog1024 :: "nat \<Rightarrow> nat" where
  "floorLog1024 n = (if n < 1024 then 0 else Suc (floorLog1024 (n div 1024)))"

declare floorLog1024.simps [simp del]

function ceilLog1024 :: "nat \<Rightarrow> nat" where
  "ceilLog1024 m = (if m \<le> 1 then 0 else Suc (ceilLog1024 ((m + 1023) div 1024)))"
  by pat_completeness auto
termination
  by (relation "measure (\<lambda>m. m)") auto

declare ceilLog1024.simps [simp del]

definition logIndex :: "rat \<Rightarrow> int" where
  "logIndex bytes =
     (if 1 \<le> bytes then int (floorLog1024 (nat \<lfloor>bytes\<rfloor>))
      else - int (ceilLog1024 (nat \<lceil>1 / bytes\<rceil>)))"

definition sizes :: "string list" where
  "sizes = [''Bytes'', ''KB'', ''MB'', ''GB'', ''TB'']"

definition showFixed2 :: "rat \<Rightarrow> string" where
  "showFixed2 v =
     (let h = nat \<lfloor>v * 100 + 1 / 2\<rfloor>; whole = h div 100; frac = h mod 100
      in digits whole @
         (if frac = 0 then []
          else ''.'' @ digits (frac div 10) @ (if frac mod 10 = 0 then [] else digits (frac mod 10))))"

definition formatBytes :: "rat \<Rightarrow> string" where
  "formatBytes bytes =
     (if bytes = 0 then ''0 Bytes''
      else if bytes < 0 then ''NaN undefined''
      else
        let i = logIndex bytes;
            v = (if 0 \<le> i then bytes / 1024 ^ nat i else bytes * 1024 ^ nat (- i))
        in showFixed2 v @ '' '' @
           (if 0 \<le> i \<and> nat i < length sizes then sizes ! nat i else ''undefined''))"

section \<open>The file system\<close>

text \<open>
  Regular files by absolute path, with their bytes, and whether the disk accepts writes
  at present. \<open>fs.access\<close> resolves exactly for the paths present.
\<close>

record filesystem =
  files :: "(string \<times> string) list"
  writable :: bool

definition fs_access :: "filesystem \<Rightarrow> string \<Rightarrow> bool" where
  "fs_access fsys p = (map_of (files fsys) p \<noteq> None)"

definition fs_writeFile :: "filesystem \<Rightarrow> string \<Rightarrow> string \<Rightarrow> error + filesystem" where
  "fs_writeFile fsys p content =
     (if writable fsys
      then Inr (fsys \<lparr> files := (p, content) # filter (\<lambda>e. fst e \<noteq> p) (files fsys) \<rparr>)
      else Inl FilesystemError)"

definition fs_unlink :: "filesystem \<Rightarrow> string \<Rightarrow> error + filesystem" where
  "fs_unlink fsys p =
     (if writable fsys \<and> fs_access fsys p
      then Inr (fsys \<lparr> files := filter (\<lambda>e. fst e \<noteq> p) (files fsys) \<rparr>)
      else Inl FilesystemError)"

text \<open>\<open>FileManager.getStorageStats\<close>: the regular files directly in the upload directory.\<close>

definition getStorageStats :: "config \<Rightarrow> filesystem \<Rightarrow> nat \<times> nat" where
  "getStorageStats cfg fsys =
     (let names = remdups (map fst (files fsys));
          inDir = filter (\<lambda>p. withinDir (UPLOAD_DIR cfg) p \<and>
                               CHR ''/'' \<notin> set (drop (length (UPLOAD_DIR cfg) + 1) p)) names
      in (length inDir,
          sum_list (map (\<lambda>p. case map_of (files fsys) p of None \<Rightarrow> 0 | Some b \<Rightarrow> length b) inDir)))"

section \<open>The HTTP handlers\<close>

record server =
  db :: db_handle
  fs :: filesystem

text \<open>
  A response is the status code with the body. \<open>Failure\<close> is the JSON error envelope
  (status, message, error); \<open>BunFile\<close> is \<open>Bun.file(path)\<close> answered with the bytes of
  the file, status 200; \<open>Uncaught\<close> is an exception that leaves a handler without
  a \<open>try\<close> block, which the framework answers with status 500.
\<close>

datatype response =
    Failure nat string string
  | BunFile string string
  | Uploaded (up_shortCode: string) (up_shortUrl: string) (up_directUrl: string)
      (up_filename: string) (up_size: nat) (up_sizeFormatted: string) (up_mimetype: string)
      (up_uploadedAt: string)
  | UrlPage (page_data: "url_record list") (page_limit: js_number) (page_offset: js_number)
      (page_total: nat) (page_hasMore: bool)
  | UrlList "url_record list"
  | SearchResult "url_record list" string
  | Deleted string string
  | Statistics (st_totalUrls: nat) (st_totalAccess: nat) (st_avgFileSize: string)
      (st_fileCount: nat) (st_totalSize: string) (st_totalSizeBytes: nat)
      (st_maxFileSize: string) (st_allowAllTypes: bool) (st_shortUrlLength: nat)
  | Uncaught error

fun statusOf :: "response \<Rightarrow> nat" where
  "statusOf (Failure st msg err) = st"
| "statusOf (Uploaded c su du fnm sz sf mt ua) = 201"
| "statusOf (Uncaught e) = 500"
| "statusOf r = 200"

subsection \<open>\<open>POST /upload\<close>\<close>

text \<open>
  The uploaded \<open>File\<close>: its name, its content type (empty when the client sent none) and
  its bytes; \<open>file.size\<close> is the number of bytes.
\<close>

record upload_file =
  file_name :: string
  file_type :: string
  file_bytes :: string

definition file_size :: "upload_file \<Rightarrow> nat" where
  "file_size f = length (file_bytes f)"

text \<open>
  \<open>formData.get('file')\<close> is \<open>null\<close>, a string or a \<open>File\<close>; \<open>request.formData()\<close>
  throws when the body is no form at all, and \<open>Malformed\<close> carries the message of that
  exception.
\<close>

datatype form_entry = NoEntry | TextEntry string | FileEntry upload_file

datatype request_body = Malformed string | Form form_entry

record upload_request =
  body :: request_body
  forwardedProto :: "string option"
  host :: "string option"
  random :: "nat \<Rightarrow> nat"
  dateNow :: nat
  isoUploadedAt :: string
  isoMeta :: string

text \<open>\<open>x || d\<close> on a header value that may be \<open>null\<close> or empty.\<close>

definition orElse :: "string option \<Rightarrow> string \<Rightarrow> string" where
  "orElse v d = (case v of None \<Rightarrow> d | Some x \<Rightarrow> if x = [] then d else x)"

definition uploadHandler :: "config \<Rightarrow> upload_request \<Rightarrow> server \<Rightarrow> response \<times> server" where
  "uploadHandler cfg req s =
     (case body req of
        Malformed msg \<Rightarrow> (Failure 500 ''Upload failed'' msg, s)
      | Form NoEntry \<Rightarrow> (Failure 400 ''No file uploaded'' ''MISSING_FILE'', s)
      | Form (TextEntry t) \<Rightarrow> (Failure 400 ''No file uploaded'' ''MISSING_FILE'', s)
      | Form (FileEntry file) \<Rightarrow>
          if file_size file > MAX_FILE_SIZE cfg
          then (Failure 413
                  (''File too large. Maximum size is '' @ formatBytes (of_nat (MAX_FILE_SIZE cfg)))
                  ''FILE_TOO_LARGE'', s)
          else
            (case generateUniqueShortCode cfg (db s) (random req) of
               Inl e \<Rightarrow> (Failure 500 ''Upload failed'' (error_message e), s)
             | Inr code \<Rightarrow>
                 let ext = extname (file_name file);
                     fname = digits (dateNow req) @ ''-'' @ code @ ext;
                     filePath = path_join [UPLOAD_DIR cfg, fname]
                 in (case fs_writeFile (fs s) filePath (file_bytes file) of
                       Inl e \<Rightarrow> (Failure 500 ''Upload failed'' (error_message e), s)
                     | Inr fs' \<Rightarrow>
                         (case insertUrl (db s)
                                 \<lparr> shortCode = code, filename = fname,
                                   originalName = file_name file,
                                   uploadedAt = isoUploadedAt req,
                                   size_col = file_size file,
                                   mimetype = orElse (Some (file_type file))
                                                ''application/octet-stream'' \<rparr> of
                            Inl e \<Rightarrow>
                              (Failure 500 ''Upload failed'' (error_message e), s \<lparr> fs := fs' \<rparr>)
                          | Inr db' \<Rightarrow>
                              let protocol = orElse (forwardedProto req) ''http'';
                                  hostName = orElse (host req) (''localhost:'' @ PORT cfg)
                              in (Uploaded code
                                    (protocol @ ''://'' @ hostName @ ''/'' @ code)
                                    (protocol @ ''://'' @ hostName @ ''/file/'' @ fname)
                                    (file_name file) (file_size file)
                                    (formatBytes (of_nat (file_size file)))
                                    (orElse (Some (file_type file)) ''application/octet-stream'')
                                    (isoMeta req),
                                  \<lparr> db = db', fs = fs' \<rparr>)))))"

subsection \<open>\<open>GET /:shortCode\<close> and \<open>GET /file/:filename\<close>\<close>

definition bunFile :: "filesystem \<Rightarrow> string \<Rightarrow> response" where
  "bunFile fsys p = BunFile p (case map_of (files fsys) p of None \<Rightarrow> [] | Some b \<Rightarrow> b)"

text \<open>The second argument is the time of the request as an ISO string.\<close>

definition shortCodeHandler :: "config \<Rightarrow> string \<Rightarrow> string \<Rightarrow> server \<Rightarrow> response \<times> server" where
  "shortCodeHandler cfg now code s =
     (if \<not> validShortCode code
      then (Failure 404 ''Invalid short code format'' ''INVALID_SHORT_CODE'', s)
      else
        (case getUrlByShortCode (db s) code of
           Inl e \<Rightarrow> (Failure 500 ''Internal server error'' (error_message e), s)
         | Inr None \<Rightarrow> (Failure 404 ''Short URL not found'' ''NOT_FOUND'', s)
         | Inr (Some urlRecord) \<Rightarrow>
             let filePath = path_join [UPLOAD_DIR cfg, filename urlRecord]
             in if \<not> fs_access (fs s) filePath
                then (Failure 404 ''File not found'' ''FILE_NOT_FOUND'', s)
                else
                  (case incrementAccessCount (db s) now code of
                     Inl e \<Rightarrow> (Failure 500 ''Internal server error'' (error_message e), s)
                   | Inr db' \<Rightarrow> (bunFile (fs s) filePath, s \<lparr> db := db' \<rparr>))))"

definition fileHandler :: "config \<Rightarrow> string \<Rightarrow> server \<Rightarrow> response \<times> server" where
  "fileHandler cfg fname s =
     (let filePath = path_join [UPLOAD_DIR cfg, fname]
      in if \<not> fs_access (fs s) filePath
         then (Failure 404 ''File not found'' ''FILE_NOT_FOUND'', s)
         else (bunFile (fs s) filePath, s))"

subsection \<open>Listing, search, deletion and statistics\<close>

text \<open>
  A numeric query parameter arrives as the result of \<open>parseInt\<close>, which is \<open>NaN\<close> when
  the parameter is absent or does not start with a number. \<open>parseInt(x) || d\<close> replaces
  \<open>NaN\<close> and zero by the default.
\<close>

definition parsedOr :: "js_number \<Rightarrow> int \<Rightarrow> js_number" where
  "parsedOr v d =
     (case v of
        NaN \<Rightarrow> Finite d
      | PosInfinity \<Rightarrow> PosInfinity
      | NegInfinity \<Rightarrow> NegInfinity
      | Finite n \<Rightarrow> if n = 0 then Finite d else Finite n)"

text \<open>
  The value of \<open>a + b < n\<close> for two such numbers and a count of rows. The sum of two
  whole numbers is formed in doubles and is rounded beyond \<open>2^53\<close> in magnitude; a count
  of rows is far below that, so the rounding does not change the comparison.
\<close>

definition sumLessThan :: "js_number \<Rightarrow> js_number \<Rightarrow> nat \<Rightarrow> bool" where
  "sumLessThan a b n =
     (case a of
        NaN \<Rightarrow> False
      | PosInfinity \<Rightarrow> False
      | NegInfinity \<Rightarrow> (case b of NaN \<Rightarrow> False | PosInfinity \<Rightarrow> False | other \<Rightarrow> True)
      | Finite x \<Rightarrow>
          (case b of
             NaN \<Rightarrow> False
           | PosInfinity \<Rightarrow> False
           | NegInfinity \<Rightarrow> True
           | Finite y \<Rightarrow> x + y < int n))"

definition urlsHandler :: "js_number \<Rightarrow> js_number \<Rightarrow> server \<Rightarrow> response \<times> server" where
  "urlsHandler limitParam offsetParam s =
     (let limit = parsedOr limitParam 100;
          offset = parsedOr offsetParam 0
      in case getAllUrls (db s) limit offset of
           Inl e \<Rightarrow> (Uncaught e, s)
         | Inr urls \<Rightarrow>
             (case getTotalCount (db s) of
                Inl e \<Rightarrow> (Uncaught e, s)
              | Inr total' \<Rightarrow>
                  (UrlPage urls limit offset total' (sumLessThan offset limit total'), s)))"

definition recentHandler :: "js_number \<Rightarrow> server \<Rightarrow> response \<times> server" where
  "recentHandler limitParam s =
     (case getRecentUploads (db s) (parsedOr limitParam 10) of
        Inl e \<Rightarrow> (Uncaught e, s)
      | Inr urls \<Rightarrow> (UrlList urls, s))"

definition popularHandler :: "js_number \<Rightarrow> server \<Rightarrow> response \<times> server" where
  "popularHandler limitParam s =
     (case getMostAccessedUrls (db s) (parsedOr limitParam 10) of
        Inl e \<Rightarrow> (Uncaught e, s)
      | Inr urls \<Rightarrow> (UrlList urls, s))"


text \<open>
  The file is unlinked without waiting and a failure is ignored; the state returned is
  the one after the unlink has settled.
\<close>

definition deleteHandler :: "config \<Rightarrow> string \<Rightarrow> server \<Rightarrow> response \<times> server" where
  "deleteHandler cfg code s =
     (case getUrlByShortCode (db s) code of
        Inl e \<Rightarrow> (Failure 500 ''Delete failed'' (error_message e), s)
      | Inr None \<Rightarrow> (Failure 404 ''Short URL not found'' ''NOT_FOUND'', s)
      | Inr (Some urlRecord) \<Rightarrow>
          (case deleteUrl (db s) code of
             Inl e \<Rightarrow> (Failure 500 ''Delete failed'' (error_message e), s)
           | Inr (deleted, db') \<Rightarrow>
               if \<not> deleted
               then (Failure 500 ''Failed to delete URL'' ''DELETE_FAILED'', s \<lparr> db := db' \<rparr>)
               else
                 let filePath = path_join [UPLOAD_DIR cfg, filename urlRecord];
                     fs' = (case fs_unlink (fs s) filePath of Inl e \<Rightarrow> fs s | Inr f \<Rightarrow> f)
                 in (Deleted code (originalName urlRecord), \<lparr> db = db', fs = fs' \<rparr>)))"

definition statsHandler :: "config \<Rightarrow> server \<Rightarrow> response \<times> server" where
  "statsHandler cfg s =
     (let storageStats = getStorageStats cfg (fs s)
      in case getStats (db s) of
           Inl e \<Rightarrow> (Uncaught e, s)
         | Inr dbStats \<Rightarrow>
             (Statistics (totalUrls dbStats) (totalAccess dbStats)
                (formatBytes (avgFileSize dbStats))
                (fst storageStats) (formatBytes (of_nat (snd storageStats))) (snd storageStats)
                (formatBytes (of_nat (MAX_FILE_SIZE cfg))) (ALLOW_ALL_TYPES cfg)
                (SHORT_URL_LENGTH cfg), s))"

section \<open>Histories of the store\<close>

text \<open>
  Every operation of \<open>DatabaseManager\<close> on an open store, with its effect on the table.
  The queries return their result only; an operation that throws leaves the table as it
  was.
\<close>

datatype db_op =
    InsertUrl url_data
  | GetUrlByShortCode string
  | IsShortCodeUsed string
  | IncrementAccessCount string string
  | GetAllUrls js_number js_number
  | GetTotalCount
  | GetStats
  | DeleteUrl string
  | SearchUrls string js_number
  | GetMostAccessedUrls js_number
  | GetRecentUploads js_number

fun run_op :: "db_op \<Rightarrow> db_handle \<Rightarrow> db_handle" where
  "run_op (InsertUrl data) h = (case insertUrl h data of Inl e \<Rightarrow> h | Inr h' \<Rightarrow> h')"
| "run_op (IncrementAccessCount now code) h =
     (case incrementAccessCount h now code of Inl e \<Rightarrow> h | Inr h' \<Rightarrow> h')"
| "run_op (DeleteUrl code) h = (case deleteUrl h code of Inl e \<Rightarrow> h | Inr (b, h') \<Rightarrow> h')"
| "run_op other h = h"

fun run_ops :: "db_op list \<Rightarrow> db_handle \<Rightarrow> db_handle" where
  "run_ops [] h = h"
| "run_ops (x # xs) h = run_ops xs (run_op x h)"

definition rowsOf :: "db_handle \<Rightarrow> url_record list" where
  "rowsOf h = (case h of None \<Rightarrow> [] | Some d \<Rightarrow> rows d)"

text \<open>
  Ids identify records along a history: they are pairwise distinct and none exceeds the
  AUTOINCREMENT sequence, so an id is never assigned twice.
\<close>

definition idsAssignedOnce :: "db_handle \<Rightarrow> bool" where
  "idsAssignedOnce h =
     (case h of
        None \<Rightarrow> True
      | Some d \<Rightarrow> distinct (map id_col (rows d)) \<and> list_all (\<lambda>r. id_col r \<le> seq d) (rows d))"

section \<open>The specification's notion of a search match\<close>

text \<open>
  Written from the words of the specification, not from the source: the name contains
  the query as a substring, letters compared without regard to (ASCII) case.
  \<open>startsWithIgnoringCase q s\<close> holds when \<open>q\<close> is a prefix of \<open>s\<close> in that sense.
\<close>

fun startsWithIgnoringCase :: "string \<Rightarrow> string \<Rightarrow> bool" where
  "startsWithIgnoringCase [] s = True"
| "startsWithIgnoringCase (p # ps) [] = False"
| "startsWithIgnoringCase (p # ps) (c # cs) =
     (asciiLower p = asciiLower c \<and> startsWithIgnoringCase ps cs)"

fun containsIgnoringCase :: "string \<Rightarrow> string \<Rightarrow> bool" where
  "containsIgnoringCase q [] = startsWithIgnoringCase q []"
| "containsIgnoringCase q (c # cs) =
     (startsWithIgnoringCase q (c # cs) \<or> containsIgnoringCase q cs)"

section \<open>A sample deployment\<close>

text \<open>
  A server started in \<open>/srv/app\<close> without \<open>PORT\<close> in its environment, holding one upload
  with its file in place.
\<close>

definition sampleConfig :: config where
  "sampleConfig = CONFIG ''/srv/app'' None"

definition sampleData :: url_data where
  "sampleData =
     \<lparr> shortCode = ''aBc123'', filename = ''1700000000000-aBc123.pdf'',
       originalName = ''Report.pdf'', uploadedAt = ''2024-01-01T00:00:00.000Z'',
       size_col = 5, mimetype = ''application/pdf'' \<rparr>"

definition sampleRecord :: url_record where
  "sampleRecord =
     \<lparr> shortCode = ''aBc123'', filename = ''1700000000000-aBc123.pdf'',
       originalName = ''Report.pdf'', uploadedAt = ''2024-01-01T00:00:00.000Z'',
       size_col = 5, mimetype = ''application/pdf'',
       id_col = 1, accessCount = 0, lastAccessedAt = None \<rparr>"

definition sampleDatabase :: database where
  "sampleDatabase = \<lparr> rows = [sampleRecord], seq = 1, changes = 1 \<rparr>"

definition sampleDisk :: filesystem where
  "sampleDisk =
     \<lparr> files = [(''/srv/app/public/file/1700000000000-aBc123.pdf'', ''hello''),
                (''/srv/app/data/urls.db'', ''SQLite format 3'')],
       writable = True \<rparr>"

definition sampleServer :: server where
  "sampleServer = \<lparr> db = Some sampleDatabase, fs = sampleDisk \<rparr>"

text \<open>Five uploads on five days, not in order of their dates.\<close>

definition sampleUpload :: "string \<Rightarrow> string \<Rightarrow> url_data" where
  "sampleUpload code day =
     \<lparr> shortCode = code, filename = ''1700000000000-'' @ code @ ''.txt'',
       originalName = code @ ''.txt'', uploadedAt = ''2024-01-'' @ day @ ''T00:00:00.000Z'',
       size_col = 5, mimetype = ''text/plain'' \<rparr>"



text \<open>
  An upload request whose random draws are all zero, so that every code drawn consists of
  the letter A, and a server on which both such codes are taken.
\<close>

definition sampleRequest :: upload_request where
  "sampleRequest =
     \<lparr> body = Form (FileEntry \<lparr> file_name = ''notes.txt'', file_type = ''text/plain'',
                                file_bytes = ''hello'' \<rparr>),
       forwardedProto = None, host = None, random = (\<lambda>k. 0), dateNow = 1700000000000,
       isoUploadedAt = ''2024-03-01T00:00:00.000Z'', isoMeta = ''2024-03-01T00:00:00.001Z'' \<rparr>"

definition collidingServer :: server where
  "collidingServer =
     \<lparr> db = run_ops [InsertUrl (sampleUpload ''AAAAAA'' ''01''),
                      InsertUrl (sampleUpload ''AAAAAAAA'' ''02'')] init,
       fs = sampleDisk \<rparr>"

section \<open>Properties of the short-code generator\<close>

lemma charAt_chars_length: "i < 62 \<Longrightarrow> length (charAt chars i) = 1"
  by (simp add: charAt_def chars_def)

lemma generateShortCode_length:
  "\<forall>k. rnd k < 62 \<Longrightarrow> length (generateShortCode rnd pos n) = n"
  by (induction n arbitrary: pos) (simp_all add: charAt_chars_length)

lemma isShortCodeUsed_Some:
  "isShortCodeUsed (Some d) c = Inr (\<exists>r \<in> set (rows d). shortCode r = c)"
  by (auto simp: isShortCodeUsed_def filter_empty_conv)

lemma loop_find:
  "a \<le> 10 \<Longrightarrow> SHORT_URL_LENGTH cfg = 6 \<Longrightarrow>
   generateUniqueShortCode_loop cfg (Some d) rnd (6 * a) a =
     Inr (case find (\<lambda>k. isShortCodeUsed (Some d) (generateShortCode rnd (6 * k) 6) = Inr False) [a..<10] of
            Some k \<Rightarrow> generateShortCode rnd (6 * k) 6
          | None \<Rightarrow> generateShortCode rnd 60 8)"
proof (induction "10 - a" arbitrary: a)
  case 0
  then have "a = 10" by simp
  then show ?case using 0
    by (simp add: generateUniqueShortCode_loop.simps [of cfg "Some d" rnd 60 10] maxAttempts_def)
next
  case (Suc n)
  then have lt: "a < 10" by simp
  have step: "generateUniqueShortCode_loop cfg (Some d) rnd (6 * Suc a) (Suc a) =
     Inr (case find (\<lambda>k. isShortCodeUsed (Some d) (generateShortCode rnd (6 * k) 6) = Inr False) [Suc a..<10] of
            Some k \<Rightarrow> generateShortCode rnd (6 * k) 6
          | None \<Rightarrow> generateShortCode rnd 60 8)"
    using Suc.hyps(1) [of "Suc a"] Suc.hyps(2) Suc.prems by simp
  have upt: "[a..<10] = a # [Suc a..<10]" using lt by (simp add: upt_conv_Cons)
  show ?case
    unfolding upt using lt step Suc.prems(2)
    by (subst generateUniqueShortCode_loop.simps)
       (simp add: maxAttempts_def isShortCodeUsed_Some Let_def add.commute)
qed


lemma CONFIG_SHORT_URL_LENGTH: "SHORT_URL_LENGTH (CONFIG cwd envPort) = 6"
  by (simp add: CONFIG_def)

text \<open>
  Claim C1. On an open store, \<open>generateUniqueShortCode\<close> returns a code. It is the first of
  the ten six-character draws that \<open>isShortCodeUsed\<close> reports absent; only when all ten
  draws are in use it is the eight-character draw that follows them, returned without a
  check. The code returned is never one of the draws for which the check answered true.
\<close>

theorem generateUniqueShortCode_first_absent:
  assumes rnd: "\<forall>k. rnd k < 62"
  shows "\<exists>code. generateUniqueShortCode (CONFIG cwd envPort) (Some d) rnd = Inr code \<and>
           (case find (\<lambda>k. isShortCodeUsed (Some d) (generateShortCode rnd (6 * k) 6) = Inr False)
                   [0..<10] of
              Some k \<Rightarrow> code = generateShortCode rnd (6 * k) 6 \<and> length code = 6 \<and>
                        isShortCodeUsed (Some d) code = Inr False
            | None \<Rightarrow> code = generateShortCode rnd 60 8 \<and> length code = 8) \<and>
           (\<forall>k<10. isShortCodeUsed (Some d) (generateShortCode rnd (6 * k) 6) = Inr True
                   \<longrightarrow> code \<noteq> generateShortCode rnd (6 * k) 6)"
proof -
  let ?P = "\<lambda>k. isShortCodeUsed (Some d) (generateShortCode rnd (6 * k) 6) = Inr False"
  have run: "generateUniqueShortCode (CONFIG cwd envPort) (Some d) rnd =
      Inr (case find ?P [0..<10] of
             Some k \<Rightarrow> generateShortCode rnd (6 * k) 6
           | None \<Rightarrow> generateShortCode rnd 60 8)"
    using loop_find [of 0 "CONFIG cwd envPort" d rnd]
    by (simp add: generateUniqueShortCode_def CONFIG_SHORT_URL_LENGTH)
  have len: "\<And>pos n. length (generateShortCode rnd pos n) = n"
    using rnd by (rule generateShortCode_length)
  show ?thesis
  proof (cases "find ?P [0..<10]")
    case None
    have "generateShortCode rnd 60 8 \<noteq> generateShortCode rnd (6 * k) 6" for k
      using len [of 60 8] len [of "6 * k" 6] by auto
    with None run show ?thesis by (simp add: len)
  next
    case (Some k)
    then have Pk: "?P k" by (auto simp: find_Some_iff)
    then have "generateShortCode rnd (6 * k) 6 \<noteq> generateShortCode rnd (6 * j) 6"
      if "isShortCodeUsed (Some d) (generateShortCode rnd (6 * j) 6) = Inr True" for j
      using that by auto
    with Some run Pk show ?thesis by (simp add: len)
  qed
qed

theorem generateUniqueShortCode_first_absent_witness:
  "(\<forall>k. (\<lambda>k. 0::nat) k < 62) \<and>
   generateUniqueShortCode (CONFIG ''/srv/app'' None)
     (Some \<lparr> rows = [], seq = 0, changes = 0 \<rparr>) (\<lambda>k. 0) = Inr ''AAAAAA''"
  using generateUniqueShortCode_first_absent
          [of "\<lambda>k. 0" "''/srv/app''" None "\<lparr> rows = [], seq = 0, changes = 0 \<rparr>"]
  by (auto simp: isShortCodeUsed_def upt_conv_Cons charAt_def chars_def eval_nat_numeral)

section \<open>Properties of retrieval\<close>

lemma getUrlByShortCode_Some:
  "getUrlByShortCode (Some d) code = Inr (find (\<lambda>r. shortCode r = code) (rows d))"
  by (simp add: getUrlByShortCode_def)

lemma find_None_shortCode:
  "find (\<lambda>r. shortCode r = code) rs = None \<longleftrightarrow> (\<forall>r \<in> set rs. shortCode r \<noteq> code)"
  by (auto simp: find_None_iff)

text \<open>
Claim C4. On an open store, \<open>GET /:shortCode\<close> answers 404 with
  \<open>INVALID_SHORT_CODE\<close> when the code fails the format test, 404 with \<open>NOT_FOUND\<close> when
  no record has the code, and 404 with \<open>FILE_NOT_FOUND\<close> when the record is there but its
  file is not on disk; each time the whole server state, access counts included, is as
  before. The file is answered in exactly the remaining case, with the bytes on disk.
\<close>

theorem shortCodeHandler_failures:
  assumes "db s = Some d"
  shows "(\<not> validShortCode code \<longrightarrow>
            shortCodeHandler cfg now code s =
              (Failure 404 ''Invalid short code format'' ''INVALID_SHORT_CODE'', s))
       \<and> (validShortCode code \<and> (\<forall>r \<in> set (rows d). shortCode r \<noteq> code) \<longrightarrow>
            shortCodeHandler cfg now code s =
              (Failure 404 ''Short URL not found'' ''NOT_FOUND'', s))
       \<and> (\<forall>r. validShortCode code \<and> find (\<lambda>r. shortCode r = code) (rows d) = Some r \<and>
              \<not> fs_access (fs s) (path_join [UPLOAD_DIR cfg, filename r]) \<longrightarrow>
            shortCodeHandler cfg now code s =
              (Failure 404 ''File not found'' ''FILE_NOT_FOUND'', s))
       \<and> ((\<exists>p b. fst (shortCodeHandler cfg now code s) = BunFile p b) \<longleftrightarrow>
            validShortCode code \<and>
            (\<exists>r. find (\<lambda>r. shortCode r = code) (rows d) = Some r \<and>
                 fs_access (fs s) (path_join [UPLOAD_DIR cfg, filename r])))
       \<and> (\<forall>p b. fst (shortCodeHandler cfg now code s) = BunFile p b \<longrightarrow>
            map_of (files (fs s)) p = Some b)"
proof (intro conjI allI impI)
  assume "\<not> validShortCode code"
  then show "shortCodeHandler cfg now code s =
      (Failure 404 ''Invalid short code format'' ''INVALID_SHORT_CODE'', s)"
    by (simp add: shortCodeHandler_def)
next
  assume "validShortCode code \<and> (\<forall>r \<in> set (rows d). shortCode r \<noteq> code)"
  then show "shortCodeHandler cfg now code s =
      (Failure 404 ''Short URL not found'' ''NOT_FOUND'', s)"
    using assms
    by (simp add: shortCodeHandler_def getUrlByShortCode_Some find_None_shortCode [symmetric])
next
  fix r
  assume "validShortCode code \<and> find (\<lambda>r. shortCode r = code) (rows d) = Some r \<and>
              \<not> fs_access (fs s) (path_join [UPLOAD_DIR cfg, filename r])"
  then show "shortCodeHandler cfg now code s =
      (Failure 404 ''File not found'' ''FILE_NOT_FOUND'', s)"
    using assms by (simp add: shortCodeHandler_def getUrlByShortCode_Some)
next
  show "(\<exists>p b. fst (shortCodeHandler cfg now code s) = BunFile p b) \<longleftrightarrow>
            validShortCode code \<and>
            (\<exists>r. find (\<lambda>r. shortCode r = code) (rows d) = Some r \<and>
                 fs_access (fs s) (path_join [UPLOAD_DIR cfg, filename r]))"
    using assms
    by (auto simp: shortCodeHandler_def getUrlByShortCode_Some incrementAccessCount_def
          bunFile_def Let_def split: option.splits)
next
  fix p b
  assume "fst (shortCodeHandler cfg now code s) = BunFile p b"
  then show "map_of (files (fs s)) p = Some b"
    using assms
    by (auto simp: shortCodeHandler_def getUrlByShortCode_Some incrementAccessCount_def
          bunFile_def Let_def fs_access_def split: option.splits if_splits)
qed


lemma sample_UPLOAD_DIR: "UPLOAD_DIR sampleConfig = ''/srv/app/public/file''"
  by (simp add: sampleConfig_def CONFIG_def path_resolve_def)

lemma sample_path:
  "path_join [''/srv/app/public/file'', ''1700000000000-aBc123.pdf''] =
     ''/srv/app/public/file/1700000000000-aBc123.pdf''"
  by (simp add: path_join_def path_normalize_def)

lemma sample_valid: "validShortCode ''aBc123''"
  by (simp add: validShortCode_def isAlnum_def)

theorem shortCodeHandler_failures_witness:
  "shortCodeHandler sampleConfig ''2024-02-02T00:00:00.000Z'' ''abc'' sampleServer =
     (Failure 404 ''Invalid short code format'' ''INVALID_SHORT_CODE'', sampleServer)
   \<and> shortCodeHandler sampleConfig ''2024-02-02T00:00:00.000Z'' ''zzzzzz'' sampleServer =
     (Failure 404 ''Short URL not found'' ''NOT_FOUND'', sampleServer)
   \<and> shortCodeHandler sampleConfig ''2024-02-02T00:00:00.000Z'' ''aBc123''
        (sampleServer \<lparr> fs := \<lparr> files = [], writable = True \<rparr> \<rparr>) =
     (Failure 404 ''File not found'' ''FILE_NOT_FOUND'',
      sampleServer \<lparr> fs := \<lparr> files = [], writable = True \<rparr> \<rparr>)
   \<and> (\<exists>p b. fst (shortCodeHandler sampleConfig ''2024-02-02T00:00:00.000Z'' ''aBc123''
                    sampleServer) = BunFile p b)"
proof -
  have open1: "db sampleServer = Some sampleDatabase"
    by (simp add: sampleServer_def)
  have open2: "db (sampleServer \<lparr> fs := \<lparr> files = [], writable = True \<rparr> \<rparr>) = Some sampleDatabase"
    by (simp add: sampleServer_def)
  have v1: "\<not> validShortCode ''abc''"
    by (simp add: validShortCode_def)
  have v2: "validShortCode ''zzzzzz''"
    by (simp add: validShortCode_def isAlnum_def)
  have nf: "\<forall>r \<in> set (rows sampleDatabase). shortCode r \<noteq> ''zzzzzz''"
    by (simp add: sampleDatabase_def sampleRecord_def)
  have fnd: "find (\<lambda>r. shortCode r = ''aBc123'') (rows sampleDatabase) = Some sampleRecord"
    by (simp add: sampleDatabase_def sampleRecord_def)
  have p: "path_join [UPLOAD_DIR sampleConfig, filename sampleRecord] =
      ''/srv/app/public/file/1700000000000-aBc123.pdf''"
    by (simp add: sample_UPLOAD_DIR sampleRecord_def sample_path)
  have gone: "\<not> fs_access (fs (sampleServer \<lparr> fs := \<lparr> files = [], writable = True \<rparr> \<rparr>))
      (path_join [UPLOAD_DIR sampleConfig, filename sampleRecord])"
    by (simp add: fs_access_def)
  have there: "fs_access (fs sampleServer)
      (path_join [UPLOAD_DIR sampleConfig, filename sampleRecord])"
    by (simp add: p fs_access_def sampleServer_def sampleDisk_def)
  note at = shortCodeHandler_failures [where cfg = sampleConfig and now = "''2024-02-02T00:00:00.000Z''"]
  have c1: "shortCodeHandler sampleConfig ''2024-02-02T00:00:00.000Z'' ''abc'' sampleServer =
     (Failure 404 ''Invalid short code format'' ''INVALID_SHORT_CODE'', sampleServer)"
    by (rule at [OF open1, THEN conjunct1, THEN mp, OF v1])
  have c2: "shortCodeHandler sampleConfig ''2024-02-02T00:00:00.000Z'' ''zzzzzz'' sampleServer =
     (Failure 404 ''Short URL not found'' ''NOT_FOUND'', sampleServer)"
    by (rule at [OF open1, THEN conjunct2, THEN conjunct1, THEN mp, OF conjI [OF v2 nf]])
  have c3: "shortCodeHandler sampleConfig ''2024-02-02T00:00:00.000Z'' ''aBc123''
        (sampleServer \<lparr> fs := \<lparr> files = [], writable = True \<rparr> \<rparr>) =
     (Failure 404 ''File not found'' ''FILE_NOT_FOUND'',
      sampleServer \<lparr> fs := \<lparr> files = [], writable = True \<rparr> \<rparr>)"
    by (rule at [OF open2, THEN conjunct2, THEN conjunct2, THEN conjunct1, THEN spec, THEN mp,
          OF conjI [OF sample_valid conjI [OF fnd gone]]])
  have c4: "\<exists>p b. fst (shortCodeHandler sampleConfig ''2024-02-02T00:00:00.000Z'' ''aBc123''
                    sampleServer) = BunFile p b"
  proof (rule at [OF open1, THEN conjunct2, THEN conjunct2, THEN conjunct2, THEN conjunct1,
          THEN iffD2])
    from fnd there
    have "\<exists>r. find (\<lambda>r. shortCode r = ''aBc123'') (rows sampleDatabase) = Some r \<and>
        fs_access (fs sampleServer) (path_join [UPLOAD_DIR sampleConfig, filename r])"
      by (intro exI [of _ sampleRecord] conjI)
    with sample_valid
    show "validShortCode ''aBc123'' \<and>
      (\<exists>r. find (\<lambda>r. shortCode r = ''aBc123'') (rows sampleDatabase) = Some r \<and>
        fs_access (fs sampleServer) (path_join [UPLOAD_DIR sampleConfig, filename r]))"
      by (intro conjI)
  qed
  show ?thesis
    using c1 c2 c3 c4 by (intro conjI)
qed

text \<open>
Claim C2. A retrieval through \<open>GET /:shortCode\<close> that succeeds (valid code, record
  present, file on disk) adds exactly one to the \<open>accessCount\<close> of the record with that
  code, stamps its \<open>lastAccessedAt\<close>, and leaves every other field and every record with
  another code as it was; \<open>GET /file/:filename\<close> serves the file and leaves the whole
  state, so every \<open>accessCount\<close>, untouched.
\<close>

theorem shortCodeHandler_counts_access:
  assumes "db s = Some d"
    and "validShortCode code"
    and "find (\<lambda>r. shortCode r = code) (rows d) = Some r"
    and "fs_access (fs s) (path_join [UPLOAD_DIR cfg, filename r])"
  shows "(\<exists>d'. snd (shortCodeHandler cfg now code s) = s \<lparr> db := Some d' \<rparr> \<and>
            length (rows d') = length (rows d) \<and> seq d' = seq d \<and>
            (\<forall>i < length (rows d).
               (shortCode (rows d ! i) = code \<longrightarrow>
                  accessCount (rows d' ! i) = accessCount (rows d ! i) + 1 \<and>
                  rows d' ! i = (rows d ! i) \<lparr> accessCount := accessCount (rows d ! i) + 1,
                                               lastAccessedAt := Some now \<rparr>) \<and>
               (shortCode (rows d ! i) \<noteq> code \<longrightarrow> rows d' ! i = rows d ! i)))
       \<and> fst (shortCodeHandler cfg now code s) =
           bunFile (fs s) (path_join [UPLOAD_DIR cfg, filename r])
       \<and> (\<forall>fname. snd (fileHandler cfg fname s) = s \<and>
             (fs_access (fs s) (path_join [UPLOAD_DIR cfg, fname]) \<longrightarrow>
                fst (fileHandler cfg fname s) = bunFile (fs s) (path_join [UPLOAD_DIR cfg, fname])))"
proof (intro conjI)
  let ?d' = "d \<lparr> rows := map (\<lambda>r. if shortCode r = code
                                     then r \<lparr> accessCount := accessCount r + 1,
                                              lastAccessedAt := Some now \<rparr>
                                     else r) (rows d),
                 changes := length (filter (\<lambda>r. shortCode r = code) (rows d)) \<rparr>"
  have run: "shortCodeHandler cfg now code s =
      (bunFile (fs s) (path_join [UPLOAD_DIR cfg, filename r]), s \<lparr> db := Some ?d' \<rparr>)"
    using assms
    by (simp add: shortCodeHandler_def getUrlByShortCode_Some incrementAccessCount_def)
  show "\<exists>d'. snd (shortCodeHandler cfg now code s) = s \<lparr> db := Some d' \<rparr> \<and>
            length (rows d') = length (rows d) \<and> seq d' = seq d \<and>
            (\<forall>i < length (rows d).
               (shortCode (rows d ! i) = code \<longrightarrow>
                  accessCount (rows d' ! i) = accessCount (rows d ! i) + 1 \<and>
                  rows d' ! i = (rows d ! i) \<lparr> accessCount := accessCount (rows d ! i) + 1,
                                               lastAccessedAt := Some now \<rparr>) \<and>
               (shortCode (rows d ! i) \<noteq> code \<longrightarrow> rows d' ! i = rows d ! i))"
    by (rule exI [of _ ?d']) (simp add: run)
  show "fst (shortCodeHandler cfg now code s) =
           bunFile (fs s) (path_join [UPLOAD_DIR cfg, filename r])"
    by (simp add: run)
  show "\<forall>fname. snd (fileHandler cfg fname s) = s \<and>
             (fs_access (fs s) (path_join [UPLOAD_DIR cfg, fname]) \<longrightarrow>
                fst (fileHandler cfg fname s) = bunFile (fs s) (path_join [UPLOAD_DIR cfg, fname]))"
    by (simp add: fileHandler_def Let_def)
qed

theorem shortCodeHandler_counts_access_witness:
  "map accessCount (rowsOf (db (snd (shortCodeHandler sampleConfig ''2024-02-02T00:00:00.000Z''
       ''aBc123'' sampleServer)))) = [1]
   \<and> snd (fileHandler sampleConfig ''1700000000000-aBc123.pdf'' sampleServer) = sampleServer"
proof -
  have open1: "db sampleServer = Some sampleDatabase"
    by (simp add: sampleServer_def)
  have fnd: "find (\<lambda>r. shortCode r = ''aBc123'') (rows sampleDatabase) = Some sampleRecord"
    by (simp add: sampleDatabase_def sampleRecord_def)
  have p: "path_join [UPLOAD_DIR sampleConfig, filename sampleRecord] =
      ''/srv/app/public/file/1700000000000-aBc123.pdf''"
    by (simp add: sample_UPLOAD_DIR sampleRecord_def sample_path)
  have there: "fs_access (fs sampleServer)
      (path_join [UPLOAD_DIR sampleConfig, filename sampleRecord])"
    by (simp add: p fs_access_def sampleServer_def sampleDisk_def)
  from shortCodeHandler_counts_access [OF open1 sample_valid fnd there,
      of "''2024-02-02T00:00:00.000Z''"]
  obtain d' where d': "snd (shortCodeHandler sampleConfig ''2024-02-02T00:00:00.000Z''
        ''aBc123'' sampleServer) = sampleServer \<lparr> db := Some d' \<rparr>"
      "length (rows d') = length (rows sampleDatabase)"
      "accessCount (rows d' ! 0) = accessCount (rows sampleDatabase ! 0) + 1"
      and fh: "snd (fileHandler sampleConfig ''1700000000000-aBc123.pdf'' sampleServer) = sampleServer"
    by (auto simp: sampleDatabase_def sampleRecord_def)
  from d'(2) obtain x where x: "rows d' = [x]"
    by (cases "rows d'") (auto simp: sampleDatabase_def)
  with d' fh show ?thesis
    by (simp add: rowsOf_def sampleDatabase_def sampleRecord_def)
qed

section \<open>Properties of deletion and statistics\<close>

lemma deleteUrl_Some:
  "deleteUrl (Some d) code =
     Inr (False,
          Some (d \<lparr> rows := filter (\<lambda>r. shortCode r \<noteq> code) (rows d),
                     changes := length (filter (\<lambda>r. shortCode r = code) (rows d)) \<rparr>))"
  by (simp add: deleteUrl_def Let_def jsGreater_def changesProperty_def)

lemma deleteHandler_existing:
  assumes "db s = Some d" and "find (\<lambda>r. shortCode r = code) (rows d) = Some r"
  shows "deleteHandler cfg code s =
           (Failure 500 ''Failed to delete URL'' ''DELETE_FAILED'',
            s \<lparr> db := Some (d \<lparr> rows := filter (\<lambda>r. shortCode r \<noteq> code) (rows d),
                                  changes := length (filter (\<lambda>r. shortCode r = code) (rows d)) \<rparr>) \<rparr>)"
  using assms by (simp add: deleteHandler_def getUrlByShortCode_Some deleteUrl_Some)

text \<open>
  Claim C3 does not hold of the code. \<open>deleteUrl\<close> removes the row of the sample record
  and still returns false, because it reads a property the database object does not
  have; so \<open>DELETE /urls/aBc123\<close> answers 500 with \<open>DELETE_FAILED\<close> although the record
  existed and is gone afterwards, and the file of the record stays on disk.
\<close>

theorem deleteHandler_reports_failure:
  "deleteUrl (Some sampleDatabase) ''aBc123'' =
     Inr (False, Some (sampleDatabase \<lparr> rows := [], changes := 1 \<rparr>))
   \<and> deleteHandler sampleConfig ''aBc123'' sampleServer =
       (Failure 500 ''Failed to delete URL'' ''DELETE_FAILED'',
        sampleServer \<lparr> db := Some (sampleDatabase \<lparr> rows := [], changes := 1 \<rparr>) \<rparr>)
   \<and> fs_access (fs (snd (deleteHandler sampleConfig ''aBc123'' sampleServer)))
         ''/srv/app/public/file/1700000000000-aBc123.pdf''"
proof -
  have open1: "db sampleServer = Some sampleDatabase"
    by (simp add: sampleServer_def)
  have fnd: "find (\<lambda>r. shortCode r = ''aBc123'') (rows sampleDatabase) = Some sampleRecord"
    by (simp add: sampleDatabase_def sampleRecord_def)
  have gone: "filter (\<lambda>r. shortCode r \<noteq> ''aBc123'') (rows sampleDatabase) = []"
    "length (filter (\<lambda>r. shortCode r = ''aBc123'') (rows sampleDatabase)) = 1"
    by (simp_all add: sampleDatabase_def sampleRecord_def)
  have run: "deleteHandler sampleConfig ''aBc123'' sampleServer =
       (Failure 500 ''Failed to delete URL'' ''DELETE_FAILED'',
        sampleServer \<lparr> db := Some (sampleDatabase \<lparr> rows := [], changes := 1 \<rparr>) \<rparr>)"
    using deleteHandler_existing [OF open1 fnd, of sampleConfig] by (simp add: gone)
  have "deleteUrl (Some sampleDatabase) ''aBc123'' =
     Inr (False, Some (sampleDatabase \<lparr> rows := [], changes := 1 \<rparr>))"
    by (simp add: deleteUrl_Some gone)
  moreover have "fs_access (fs (snd (deleteHandler sampleConfig ''aBc123'' sampleServer)))
         ''/srv/app/public/file/1700000000000-aBc123.pdf''"
    unfolding run by (simp add: fs_access_def sampleServer_def sampleDisk_def)
  ultimately show ?thesis
    using run by simp
qed

text \<open>
Claim C9. Over an empty table \<open>getStats\<close> returns zero for the count, the total size,
  the total access count and the average size; \<open>formatBytes\<close> prints that zero average as
  \<open>0 Bytes\<close>, returning before it computes a logarithm or a quotient; and \<open>GET /stats\<close>
  answers normally with these values.
\<close>

theorem getStats_empty:
  assumes "rows d = []"
  shows "getStats (Some d) =
           Inr \<lparr> totalUrls = 0, totalSize = 0, totalAccess = 0, avgFileSize = 0 \<rparr>
       \<and> formatBytes 0 = ''0 Bytes''
       \<and> statsHandler cfg \<lparr> db = Some d, fs = fsys \<rparr> =
           (Statistics 0 0 ''0 Bytes''
              (fst (getStorageStats cfg fsys))
              (formatBytes (of_nat (snd (getStorageStats cfg fsys))))
              (snd (getStorageStats cfg fsys))
              (formatBytes (of_nat (MAX_FILE_SIZE cfg))) (ALLOW_ALL_TYPES cfg)
              (SHORT_URL_LENGTH cfg),
            \<lparr> db = Some d, fs = fsys \<rparr>)"
  using assms
  by (simp add: getStats_def statsHandler_def sqlSum_def sqlAvg_def orZero_def formatBytes_def
        Let_def)

theorem getStats_empty_witness:
  "getStats init = Inr \<lparr> totalUrls = 0, totalSize = 0, totalAccess = 0, avgFileSize = 0 \<rparr>
   \<and> st_avgFileSize (fst (statsHandler sampleConfig \<lparr> db = init, fs = sampleDisk \<rparr>)) = ''0 Bytes''
   \<and> st_totalUrls (fst (statsHandler sampleConfig \<lparr> db = init, fs = sampleDisk \<rparr>)) = 0"
  using getStats_empty [of "\<lparr> rows = [], seq = 0, changes = 0 \<rparr>" sampleConfig sampleDisk]
  by (simp add: init_def)

section \<open>The access count along a history\<close>

lemma idsAssignedOnce_init: "idsAssignedOnce init"
  by (simp add: idsAssignedOnce_def init_def)

lemma bump_keeps_id:
  "id_col \<circ> (\<lambda>r. if shortCode r = code
                      then r \<lparr> accessCount := accessCount r + 1, lastAccessedAt := Some now \<rparr>
                      else r) = id_col"
  by (rule ext) simp

lemma idsAssignedOnce_run_op: "idsAssignedOnce h \<Longrightarrow> idsAssignedOnce (run_op x h)"
proof (cases h)
  case None
  then show ?thesis
    by (cases x) (simp_all add: insertUrl_def incrementAccessCount_def deleteUrl_def idsAssignedOnce_def)
next
  case (Some d)
  assume inv: "idsAssignedOnce h"
  show ?thesis
  proof (cases x)
    case (InsertUrl data)
    with Some inv show ?thesis
      by (auto simp: idsAssignedOnce_def insertUrl_def list_all_iff)
  next
    case (IncrementAccessCount now code)
    with Some inv show ?thesis
      by (auto simp: idsAssignedOnce_def incrementAccessCount_def list_all_iff bump_keeps_id)
  next
    case (DeleteUrl code)
    with Some inv show ?thesis
      by (auto simp: idsAssignedOnce_def deleteUrl_def Let_def list_all_iff distinct_map_filter)
  qed (use inv in simp_all)
qed

lemma idsAssignedOnce_run_ops: "idsAssignedOnce h \<Longrightarrow> idsAssignedOnce (run_ops xs h)"
  by (induction xs arbitrary: h) (simp_all add: idsAssignedOnce_run_op)

lemma run_op_open: "\<exists>d'. run_op x (Some d) = Some d'"
  by (cases x) (auto simp: insertUrl_def incrementAccessCount_def deleteUrl_def Let_def)

lemma same_id_same_record:
  assumes "distinct (map id_col rs)" "r \<in> set rs" "r' \<in> set rs" "id_col r' = id_col r"
  shows "r' = r"
  using assms by (auto simp: distinct_map inj_on_def)

lemma step_counts:
  assumes inv: "idsAssignedOnce (Some d)"
  shows "\<forall>r \<in> set (rows d). \<forall>r' \<in> set (rowsOf (run_op x (Some d))). id_col r' = id_col r \<longrightarrow>
           accessCount r \<le> accessCount r' \<and>
           (accessCount r < accessCount r' \<longrightarrow>
              (\<exists>now code. x = IncrementAccessCount now code) \<and> accessCount r' = accessCount r + 1)"
proof (intro ballI impI)
  fix r r'
  assume r: "r \<in> set (rows d)" and r': "r' \<in> set (rowsOf (run_op x (Some d)))"
    and same: "id_col r' = id_col r"
  from inv have dist: "distinct (map id_col (rows d))"
    and le: "\<forall>r \<in> set (rows d). id_col r \<le> seq d"
    by (simp_all add: idsAssignedOnce_def list_all_iff)
  let ?goal = "accessCount r \<le> accessCount r' \<and>
           (accessCount r < accessCount r' \<longrightarrow>
              (\<exists>now code. x = IncrementAccessCount now code) \<and> accessCount r' = accessCount r + 1)"
  show ?goal
  proof (cases x)
    case (InsertUrl data)
    show ?thesis
    proof (cases "\<exists>r \<in> set (rows d). shortCode r = shortCode data")
      case True
      with InsertUrl r' have "r' \<in> set (rows d)"
        by (simp add: insertUrl_def rowsOf_def)
      from dist r this same have "r' = r" by (rule same_id_same_record)
      then show ?thesis by simp
    next
      case False
      with InsertUrl r' have "r' \<in> set (rows d) \<or> id_col r' = Suc (seq d)"
        by (auto simp: insertUrl_def rowsOf_def)
      moreover from le r same have "id_col r' \<noteq> Suc (seq d)" by auto
      ultimately have "r' \<in> set (rows d)" by simp
      from dist r this same have "r' = r" by (rule same_id_same_record)
      then show ?thesis by simp
    qed
  next
    case (IncrementAccessCount now code)
    with r' obtain r0 where r0: "r0 \<in> set (rows d)"
      and upd: "r' = (if shortCode r0 = code
                      then r0 \<lparr> accessCount := accessCount r0 + 1, lastAccessedAt := Some now \<rparr>
                      else r0)"
      by (auto simp: incrementAccessCount_def rowsOf_def)
    from upd have "id_col r' = id_col r0" by simp
    with same have "id_col r0 = id_col r" by simp
    with dist r r0 have "r0 = r" by (rule same_id_same_record)
    with upd IncrementAccessCount show ?thesis by simp
  next
    case (DeleteUrl code)
    with r' have "r' \<in> set (rows d)"
      by (simp add: deleteUrl_def Let_def rowsOf_def)
    from dist r this same have "r' = r" by (rule same_id_same_record)
    then show ?thesis by simp
  qed (use r r' dist same in \<open>auto simp: rowsOf_def dest: same_id_same_record\<close>)
qed

lemma step_new:
  "\<forall>r' \<in> set (rowsOf (run_op x (Some d))). id_col r' \<notin> id_col ` set (rows d) \<longrightarrow>
     (\<exists>data. x = InsertUrl data) \<and> accessCount r' = 0"
proof (cases x)
  case (IncrementAccessCount now code)
  then show ?thesis
    by (auto simp: incrementAccessCount_def rowsOf_def)
qed (auto simp: insertUrl_def deleteUrl_def Let_def rowsOf_def)


lemma run_ops_open: "\<exists>d'. run_ops xs (Some d) = Some d'"
proof (induction xs arbitrary: d)
  case Nil
  then show ?case by simp
next
  case (Cons x xs)
  obtain d1 where "run_op x (Some d) = Some d1"
    using run_op_open by blast
  with Cons show ?case by simp
qed

lemma run_ops_append: "run_ops (xs @ ys) h = run_ops ys (run_ops xs h)"
  by (induction xs arbitrary: h) simp_all

lemma step_ids:
  assumes "run_op x (Some d) = Some d1"
  shows "seq d \<le> seq d1 \<and>
         (\<forall>r1 \<in> set (rows d1). id_col r1 \<in> id_col ` set (rows d) \<or> seq d < id_col r1)"
  using assms
  by (cases x)
     (auto simp: insertUrl_def incrementAccessCount_def deleteUrl_def Let_def split: if_splits)

lemma later_ids:
  "r' \<in> set (rowsOf (run_ops xs (Some d))) \<Longrightarrow>
   id_col r' \<in> id_col ` set (rows d) \<or> seq d < id_col r'"
proof (induction xs arbitrary: d)
  case Nil
  then show ?case by (simp add: rowsOf_def)
next
  case (Cons x xs)
  obtain d1 where d1: "run_op x (Some d) = Some d1"
    using run_op_open by blast
  with Cons.prems have "r' \<in> set (rowsOf (run_ops xs (Some d1)))" by simp
  then have "id_col r' \<in> id_col ` set (rows d1) \<or> seq d1 < id_col r'"
    by (rule Cons.IH)
  with step_ids [OF d1] show ?case by force
qed

lemma later_counts:
  assumes "idsAssignedOnce (Some d)" and "r \<in> set (rows d)"
    and "r' \<in> set (rowsOf (run_ops xs (Some d)))" and "id_col r' = id_col r"
  shows "accessCount r \<le> accessCount r'"
  using assms
proof (induction xs arbitrary: d r)
  case Nil
  then have "r' = r"
    by (auto simp: rowsOf_def idsAssignedOnce_def dest: same_id_same_record)
  then show ?case by simp
next
  case (Cons x xs)
  obtain d1 where d1: "run_op x (Some d) = Some d1"
    using run_op_open by blast
  have inv1: "idsAssignedOnce (Some d1)"
    using idsAssignedOnce_run_op [OF Cons.prems(1), of x] d1 by simp
  have fin: "r' \<in> set (rowsOf (run_ops xs (Some d1)))"
    using Cons.prems(3) d1 by simp
  show ?case
  proof (cases "\<exists>r1 \<in> set (rows d1). id_col r1 = id_col r")
    case True
    then obtain r1 where r1: "r1 \<in> set (rows d1)" "id_col r1 = id_col r" by blast
    have "accessCount r \<le> accessCount r1"
      using step_counts [OF Cons.prems(1), of x] Cons.prems(2) r1 d1
      by (auto simp: rowsOf_def)
    moreover have "accessCount r1 \<le> accessCount r'"
      using Cons.IH [OF inv1 r1(1) fin] r1(2) Cons.prems(4) by simp
    ultimately show ?thesis by simp
  next
    case False
    from later_ids [OF fin] have "id_col r' \<in> id_col ` set (rows d1) \<or> seq d1 < id_col r'" .
    moreover from False Cons.prems(4) have "id_col r' \<notin> id_col ` set (rows d1)" by auto
    moreover have "id_col r \<le> seq d"
      using Cons.prems(1,2) by (simp add: idsAssignedOnce_def list_all_iff)
    moreover have "seq d \<le> seq d1" using step_ids [OF d1] by simp
    ultimately show ?thesis using Cons.prems(4) by simp
  qed
qed

text \<open>
Claim C6. Along every history of store operations from the empty table, ids are
  assigned once, and no operation lowers the \<open>accessCount\<close> of a record: a record that
  is still there after an operation has the same count, or the count plus one and then
  the operation was \<open>incrementAccessCount\<close>; a record that was not there before comes
  from \<open>insertUrl\<close> and has count 0; and over any further operations the count of a
  record is never below an earlier value.
\<close>

theorem accessCount_never_decreases:
  "idsAssignedOnce (run_ops ops init)
   \<and> (\<forall>r \<in> set (rowsOf (run_ops ops init)).
        \<forall>r' \<in> set (rowsOf (run_op x (run_ops ops init))).
          id_col r' = id_col r \<longrightarrow>
            accessCount r \<le> accessCount r' \<and>
            (accessCount r < accessCount r' \<longrightarrow>
               (\<exists>now code. x = IncrementAccessCount now code) \<and>
               accessCount r' = accessCount r + 1))
   \<and> (\<forall>r' \<in> set (rowsOf (run_op x (run_ops ops init))).
        id_col r' \<notin> id_col ` set (rowsOf (run_ops ops init)) \<longrightarrow>
          (\<exists>data. x = InsertUrl data) \<and> accessCount r' = 0)
   \<and> (\<forall>r \<in> set (rowsOf (run_ops ops init)).
        \<forall>r' \<in> set (rowsOf (run_ops (ops @ later) init)).
          id_col r' = id_col r \<longrightarrow> accessCount r \<le> accessCount r')"
proof -
  obtain d where d: "run_ops ops init = Some d"
    using run_ops_open [of ops] by (auto simp: init_def)
  have inv: "idsAssignedOnce (Some d)"
    using idsAssignedOnce_run_ops [OF idsAssignedOnce_init, of ops] d by simp
  have rs: "rowsOf (Some d) = rows d" by (simp add: rowsOf_def)
  have long: "\<forall>r \<in> set (rows d). \<forall>r' \<in> set (rowsOf (run_ops later (Some d))).
      id_col r' = id_col r \<longrightarrow> accessCount r \<le> accessCount r'"
    using later_counts [OF inv] by simp
  show ?thesis
    unfolding d run_ops_append rs
    using inv step_counts [OF inv, of x] step_new [of x d] long
    by (intro conjI)
qed

theorem accessCount_never_decreases_witness:
  "rowsOf (run_ops [InsertUrl sampleData] init) = [sampleRecord]
   \<and> rowsOf (run_op (IncrementAccessCount ''2024-02-02T00:00:00.000Z'' ''aBc123'')
              (run_ops [InsertUrl sampleData] init)) =
       [sampleRecord \<lparr> accessCount := 1, lastAccessedAt := Some ''2024-02-02T00:00:00.000Z'' \<rparr>]
   \<and> accessCount sampleRecord \<le>
       accessCount (sampleRecord \<lparr> accessCount := 1,
                                  lastAccessedAt := Some ''2024-02-02T00:00:00.000Z'' \<rparr>)"
proof -
  let ?bumped = "sampleRecord \<lparr> accessCount := 1,
                                lastAccessedAt := Some ''2024-02-02T00:00:00.000Z'' \<rparr>"
  have before: "rowsOf (run_ops [InsertUrl sampleData] init) = [sampleRecord]"
    by (simp add: sampleData_def sampleRecord_def init_def insertUrl_def rowsOf_def)
  have after: "rowsOf (run_op (IncrementAccessCount ''2024-02-02T00:00:00.000Z'' ''aBc123'')
              (run_ops [InsertUrl sampleData] init)) = [?bumped]"
    by (simp add: sampleData_def sampleRecord_def init_def insertUrl_def
          incrementAccessCount_def rowsOf_def)
  have r: "sampleRecord \<in> set (rowsOf (run_ops [InsertUrl sampleData] init))"
    by (simp only: before list.set_intros)
  have r': "?bumped \<in> set (rowsOf (run_op (IncrementAccessCount ''2024-02-02T00:00:00.000Z''
              ''aBc123'') (run_ops [InsertUrl sampleData] init)))"
    by (simp only: after list.set_intros)
  have same: "id_col ?bumped = id_col sampleRecord"
    by simp
  from accessCount_never_decreases [of "[InsertUrl sampleData]"
      "IncrementAccessCount ''2024-02-02T00:00:00.000Z'' ''aBc123''" "[]",
      THEN conjunct2, THEN conjunct1, THEN bspec, OF r, THEN bspec, OF r', THEN mp, OF same]
  have "accessCount sampleRecord \<le> accessCount ?bumped"
    by (rule conjunct1)
  with before after show ?thesis
    by (intro conjI)
qed

section \<open>Properties of the paged listing\<close>






lemma urlsHandler_beyond_range:
  assumes "db s = Some d" and "parsedOr limitParam 100 = Finite l" and "2 ^ 63 \<le> l"
  shows "urlsHandler limitParam offsetParam s = (Uncaught DatatypeMismatch, s)"
  using assms
  by (simp add: urlsHandler_def getAllUrls_def Let_def sqlBind_def)





section \<open>Properties of the search\<close>

lemma startsWithIgnoringCase_iff:
  "startsWithIgnoringCase q s \<longleftrightarrow> (\<exists>suf. map asciiLower s = map asciiLower q @ suf)"
proof (induction q s rule: startsWithIgnoringCase.induct)
  case (3 p ps c cs)
  then show ?case by auto
qed simp_all

lemma containsIgnoringCase_iff:
  "containsIgnoringCase q s \<longleftrightarrow> (\<exists>pre suf. map asciiLower s = pre @ map asciiLower q @ suf)"
proof (induction s)
  case Nil
  then show ?case by (simp add: startsWithIgnoringCase_iff)
next
  case (Cons c cs)
  have "(\<exists>pre suf. map asciiLower (c # cs) = pre @ map asciiLower q @ suf) \<longleftrightarrow>
        (\<exists>suf. map asciiLower (c # cs) = map asciiLower q @ suf) \<or>
        (\<exists>pre suf. map asciiLower cs = pre @ map asciiLower q @ suf)"
  proof
    assume "\<exists>pre suf. map asciiLower (c # cs) = pre @ map asciiLower q @ suf"
    then obtain pre suf where e: "map asciiLower (c # cs) = pre @ map asciiLower q @ suf"
      by blast
    show "(\<exists>suf. map asciiLower (c # cs) = map asciiLower q @ suf) \<or>
        (\<exists>pre suf. map asciiLower cs = pre @ map asciiLower q @ suf)"
    proof (cases pre)
      case Nil
      with e show ?thesis by auto
    next
      case (Cons x xs)
      with e have "map asciiLower cs = xs @ map asciiLower q @ suf" by simp
      then show ?thesis by blast
    qed
  next
    assume "(\<exists>suf. map asciiLower (c # cs) = map asciiLower q @ suf) \<or>
        (\<exists>pre suf. map asciiLower cs = pre @ map asciiLower q @ suf)"
    then show "\<exists>pre suf. map asciiLower (c # cs) = pre @ map asciiLower q @ suf"
    proof
      assume "\<exists>suf. map asciiLower (c # cs) = map asciiLower q @ suf"
      then obtain suf where "map asciiLower (c # cs) = [] @ map asciiLower q @ suf" by auto
      then show ?thesis by blast
    next
      assume "\<exists>pre suf. map asciiLower cs = pre @ map asciiLower q @ suf"
      then obtain pre suf where "map asciiLower cs = pre @ map asciiLower q @ suf" by blast
      then have "map asciiLower (c # cs) = (asciiLower c # pre) @ map asciiLower q @ suf"
        by simp
      then show ?thesis by blast
    qed
  qed
  with Cons show ?case by (simp add: startsWithIgnoringCase_iff)
qed











section \<open>Properties of the upload and of direct file access\<close>

lemma chars_alnum: "list_all isAlnum chars"
  by (simp add: chars_def isAlnum_def)

lemma charAt_chars_alnum: "list_all isAlnum (charAt chars i)"
  using chars_alnum by (auto simp: charAt_def list_all_iff)

lemma generateShortCode_alnum: "list_all isAlnum (generateShortCode rnd pos n)"
  by (induction n arbitrary: pos) (simp_all add: charAt_chars_alnum)

lemma generateUniqueShortCode_shape:
  assumes "\<forall>k. rnd k < 62"
  shows "\<exists>code. generateUniqueShortCode (CONFIG cwd envPort) (Some d) rnd = Inr code \<and>
               validShortCode code"
proof -
  let ?P = "\<lambda>k. isShortCodeUsed (Some d) (generateShortCode rnd (6 * k) 6) = Inr False"
  have run: "generateUniqueShortCode (CONFIG cwd envPort) (Some d) rnd =
      Inr (case find ?P [0..<10] of
             Some k \<Rightarrow> generateShortCode rnd (6 * k) 6
           | None \<Rightarrow> generateShortCode rnd 60 8)"
    using loop_find [of 0 "CONFIG cwd envPort" d rnd]
    by (simp add: generateUniqueShortCode_def CONFIG_SHORT_URL_LENGTH)
  have "validShortCode (generateShortCode rnd pos 6)" "validShortCode (generateShortCode rnd pos 8)"
    for pos
    using generateShortCode_length [OF assms]
    by (simp_all add: validShortCode_def generateShortCode_alnum)
  then show ?thesis
    unfolding run by (cases "find ?P [0..<10]") simp_all
qed

lemma floor_half: "\<lfloor>(10001::rat) / 2\<rfloor> = 5000"
  by (rule floor_unique) simp_all

lemma showFixed2_50: "showFixed2 50 = ''50''"
  by (simp add: showFixed2_def floor_half digits.simps Let_def)

lemma logIndex_max: "logIndex 52428800 = 2"
  by (simp add: logIndex_def floorLog1024.simps)

lemma formatBytes_max: "formatBytes 52428800 = ''50 MB''"
  by (simp add: formatBytes_def logIndex_max showFixed2_50 sizes_def Let_def)

lemma CONFIG_MAX_FILE_SIZE: "MAX_FILE_SIZE (CONFIG cwd envPort) = 52428800"
  by (simp add: CONFIG_def)

lemma upload_missing:
  "body req = Form NoEntry \<or> (\<exists>t. body req = Form (TextEntry t)) \<Longrightarrow>
   uploadHandler cfg req s = (Failure 400 ''No file uploaded'' ''MISSING_FILE'', s)"
  by (auto simp: uploadHandler_def)

lemma upload_malformed:
  "body req = Malformed msg \<Longrightarrow> uploadHandler cfg req s = (Failure 500 ''Upload failed'' msg, s)"
  by (simp add: uploadHandler_def)

lemma generateUniqueShortCode_closed:
  "generateUniqueShortCode cfg None rnd = Inl DatabaseNotInitialized"
  by (simp add: generateUniqueShortCode_def generateUniqueShortCode_loop.simps [of cfg None rnd 0 0]
        maxAttempts_def isShortCodeUsed_def)

lemma upload_closed:
  "body req = Form (FileEntry f) \<Longrightarrow> file_size f \<le> 52428800 \<Longrightarrow> db s = None \<Longrightarrow>
   uploadHandler (CONFIG cwd envPort) req s =
     (Failure 500 ''Upload failed'' ''Database not initialized'', s)"
  by (simp add: uploadHandler_def CONFIG_MAX_FILE_SIZE generateUniqueShortCode_closed)

lemma upload_too_large:
  "body req = Form (FileEntry f) \<Longrightarrow> 52428800 < file_size f \<Longrightarrow>
   uploadHandler (CONFIG cwd envPort) req s =
     (Failure 413 ''File too large. Maximum size is 50 MB'' ''FILE_TOO_LARGE'', s)"
  by (simp add: uploadHandler_def CONFIG_MAX_FILE_SIZE formatBytes_max)

lemma upload_accepted:
  assumes "body req = Form (FileEntry f)" and "file_size f \<le> 52428800" and "db s = Some d"
    and "generateUniqueShortCode (CONFIG cwd envPort) (Some d) (random req) = Inr code"
  shows "if writable (fs s) \<and> (\<forall>r \<in> set (rows d). shortCode r \<noteq> code)
         then statusOf (fst (uploadHandler (CONFIG cwd envPort) req s)) = 201 \<and>
              up_shortCode (fst (uploadHandler (CONFIG cwd envPort) req s)) = code \<and>
              (\<exists>r \<in> set (rowsOf (db (snd (uploadHandler (CONFIG cwd envPort) req s)))).
                 shortCode r = code \<and> originalName r = file_name f \<and>
                 size_col r = file_size f \<and> accessCount r = 0 \<and>
                 map_of (files (fs (snd (uploadHandler (CONFIG cwd envPort) req s))))
                   (path_join [UPLOAD_DIR (CONFIG cwd envPort), filename r]) = Some (file_bytes f))
         else statusOf (fst (uploadHandler (CONFIG cwd envPort) req s)) = 500 \<and>
              db (snd (uploadHandler (CONFIG cwd envPort) req s)) = db s"
proof (cases "writable (fs s)")
  case False
  with assms show ?thesis
    by (simp add: uploadHandler_def CONFIG_MAX_FILE_SIZE fs_writeFile_def Let_def)
next
  case True
  show ?thesis
  proof (cases "\<forall>r \<in> set (rows d). shortCode r \<noteq> code")
    case False
    then have used: "\<exists>r \<in> set (rows d). shortCode r = code" by simp
    have "uploadHandler (CONFIG cwd envPort) req s =
        (Failure 500 ''Upload failed'' (error_message ConstraintViolation),
         s \<lparr> fs := (fs s) \<lparr> files := (path_join [UPLOAD_DIR (CONFIG cwd envPort),
                                      digits (dateNow req) @ ''-'' @ code @ extname (file_name f)],
                                    file_bytes f) #
                                   filter (\<lambda>e. fst e \<noteq> path_join [UPLOAD_DIR (CONFIG cwd envPort),
                                      digits (dateNow req) @ ''-'' @ code @ extname (file_name f)])
                                     (files (fs s)) \<rparr> \<rparr>)"
      using True assms used
      by (simp add: uploadHandler_def CONFIG_MAX_FILE_SIZE fs_writeFile_def insertUrl_def Let_def)
    with False show ?thesis by simp
  next
    case free: True
    with True assms show ?thesis
      by (simp add: uploadHandler_def CONFIG_MAX_FILE_SIZE fs_writeFile_def insertUrl_def Let_def
            rowsOf_def)
  qed
qed

text \<open>
  Claim C5, amended. For an upload request whose body parses as form data,
  \<open>POST /upload\<close> answers 400 with \<open>MISSING_FILE\<close> when the form has no file, and 413
  with \<open>FILE_TOO_LARGE\<close> when the file exceeds 50 MiB; in both cases the server state is
  as before: no record, nothing written. For a file of at most 50 MiB on an open store
  the generator yields a code that passes the format test; if the disk takes the write
  and no record has that code, the answer is 201 with that code, the record is stored
  with count 0 and the bytes are on disk under its file name; otherwise the answer is 500
  and the table is as before. A body that does not parse as form data, and a file within
  the limit sent to a store that is not open, are answered with 500 and leave the state
  as it was.
\<close>

theorem uploadHandler_outcomes:
  "(body req = Form NoEntry \<or> (\<exists>t. body req = Form (TextEntry t)) \<longrightarrow>
      uploadHandler (CONFIG cwd envPort) req s =
        (Failure 400 ''No file uploaded'' ''MISSING_FILE'', s))
   \<and> (\<forall>f. body req = Form (FileEntry f) \<and> 50 * 1024 * 1024 < file_size f \<longrightarrow>
      uploadHandler (CONFIG cwd envPort) req s =
        (Failure 413 ''File too large. Maximum size is 50 MB'' ''FILE_TOO_LARGE'', s))
   \<and> (\<forall>f d. body req = Form (FileEntry f) \<and> file_size f \<le> 50 * 1024 * 1024 \<and>
            db s = Some d \<and> (\<forall>k. random req k < 62) \<longrightarrow>
      (\<exists>code. generateUniqueShortCode (CONFIG cwd envPort) (Some d) (random req) = Inr code \<and>
         validShortCode code \<and>
         (if writable (fs s) \<and> (\<forall>r \<in> set (rows d). shortCode r \<noteq> code)
          then statusOf (fst (uploadHandler (CONFIG cwd envPort) req s)) = 201 \<and>
               up_shortCode (fst (uploadHandler (CONFIG cwd envPort) req s)) = code \<and>
               (\<exists>r \<in> set (rowsOf (db (snd (uploadHandler (CONFIG cwd envPort) req s)))).
                  shortCode r = code \<and> originalName r = file_name f \<and>
                  size_col r = file_size f \<and> accessCount r = 0 \<and>
                  map_of (files (fs (snd (uploadHandler (CONFIG cwd envPort) req s))))
                    (path_join [UPLOAD_DIR (CONFIG cwd envPort), filename r]) = Some (file_bytes f))
          else statusOf (fst (uploadHandler (CONFIG cwd envPort) req s)) = 500 \<and>
               db (snd (uploadHandler (CONFIG cwd envPort) req s)) = db s)))
   \<and> (\<forall>msg. body req = Malformed msg \<longrightarrow>
      uploadHandler (CONFIG cwd envPort) req s = (Failure 500 ''Upload failed'' msg, s))
   \<and> (\<forall>f. body req = Form (FileEntry f) \<and> file_size f \<le> 50 * 1024 * 1024 \<and> db s = None \<longrightarrow>
      uploadHandler (CONFIG cwd envPort) req s =
        (Failure 500 ''Upload failed'' ''Database not initialized'', s))"
proof (intro conjI allI impI)
  assume "body req = Form NoEntry \<or> (\<exists>t. body req = Form (TextEntry t))"
  then show "uploadHandler (CONFIG cwd envPort) req s =
        (Failure 400 ''No file uploaded'' ''MISSING_FILE'', s)"
    by (rule upload_missing)
next
  fix f
  assume "body req = Form (FileEntry f) \<and> 50 * 1024 * 1024 < file_size f"
  then show "uploadHandler (CONFIG cwd envPort) req s =
        (Failure 413 ''File too large. Maximum size is 50 MB'' ''FILE_TOO_LARGE'', s)"
    by (simp add: upload_too_large)
next
  fix f d
  assume a: "body req = Form (FileEntry f) \<and> file_size f \<le> 50 * 1024 * 1024 \<and>
            db s = Some d \<and> (\<forall>k. random req k < 62)"
  then obtain code where code:
    "generateUniqueShortCode (CONFIG cwd envPort) (Some d) (random req) = Inr code"
    "validShortCode code"
    using generateUniqueShortCode_shape [of "random req" cwd envPort d] by blast
  from a have "body req = Form (FileEntry f)" "file_size f \<le> 52428800" "db s = Some d"
    by simp_all
  from upload_accepted [OF this code(1)] code
  show "\<exists>code. generateUniqueShortCode (CONFIG cwd envPort) (Some d) (random req) = Inr code \<and>
         validShortCode code \<and>
         (if writable (fs s) \<and> (\<forall>r \<in> set (rows d). shortCode r \<noteq> code)
          then statusOf (fst (uploadHandler (CONFIG cwd envPort) req s)) = 201 \<and>
               up_shortCode (fst (uploadHandler (CONFIG cwd envPort) req s)) = code \<and>
               (\<exists>r \<in> set (rowsOf (db (snd (uploadHandler (CONFIG cwd envPort) req s)))).
                  shortCode r = code \<and> originalName r = file_name f \<and>
                  size_col r = file_size f \<and> accessCount r = 0 \<and>
                  map_of (files (fs (snd (uploadHandler (CONFIG cwd envPort) req s))))
                    (path_join [UPLOAD_DIR (CONFIG cwd envPort), filename r]) = Some (file_bytes f))
          else statusOf (fst (uploadHandler (CONFIG cwd envPort) req s)) = 500 \<and>
               db (snd (uploadHandler (CONFIG cwd envPort) req s)) = db s)"
    by (intro exI [of _ code] conjI)
next
  fix msg
  assume "body req = Malformed msg"
  then show "uploadHandler (CONFIG cwd envPort) req s = (Failure 500 ''Upload failed'' msg, s)"
    by (rule upload_malformed)
next
  fix f
  assume "body req = Form (FileEntry f) \<and> file_size f \<le> 50 * 1024 * 1024 \<and> db s = None"
  then show "uploadHandler (CONFIG cwd envPort) req s =
        (Failure 500 ''Upload failed'' ''Database not initialized'', s)"
    by (simp add: upload_closed)
qed


lemma zero_draws:
  "generateShortCode (\<lambda>k. 0) pos 6 = ''AAAAAA''"
  "generateShortCode (\<lambda>k. 0) pos 8 = ''AAAAAAAA''"
  by (simp_all add: eval_nat_numeral charAt_def chars_def)

lemma zero_draws_free:
  assumes "\<forall>r \<in> set (rows d). shortCode r \<noteq> ''AAAAAA''"
  shows "generateUniqueShortCode (CONFIG cwd envPort) (Some d) (\<lambda>k. 0) = Inr ''AAAAAA''"
proof -
  have "find (\<lambda>k. isShortCodeUsed (Some d) (generateShortCode (\<lambda>k. 0) (6 * k) 6) = Inr False)
          [0..<10] = Some 0"
    using assms by (simp add: zero_draws isShortCodeUsed_Some upt_conv_Cons)
  then show ?thesis
    using loop_find [of 0 "CONFIG cwd envPort" d "\<lambda>k. 0"]
    by (simp add: generateUniqueShortCode_def CONFIG_SHORT_URL_LENGTH zero_draws)
qed

lemma zero_draws_taken:
  assumes "\<exists>r \<in> set (rows d). shortCode r = ''AAAAAA''"
  shows "generateUniqueShortCode (CONFIG cwd envPort) (Some d) (\<lambda>k. 0) = Inr ''AAAAAAAA''"
proof -
  have "find (\<lambda>k. isShortCodeUsed (Some d) (generateShortCode (\<lambda>k. 0) (6 * k) 6) = Inr False)
          [0..<10] = None"
    using assms by (simp add: zero_draws isShortCodeUsed_Some find_None_iff)
  then show ?thesis
    using loop_find [of 0 "CONFIG cwd envPort" d "\<lambda>k. 0"]
    by (simp add: generateUniqueShortCode_def CONFIG_SHORT_URL_LENGTH zero_draws)
qed

theorem uploadHandler_outcomes_witness:
  "uploadHandler sampleConfig (sampleRequest \<lparr> body := Form NoEntry \<rparr>) sampleServer =
     (Failure 400 ''No file uploaded'' ''MISSING_FILE'', sampleServer)
   \<and> uploadHandler sampleConfig
        (sampleRequest \<lparr> body := Form (FileEntry \<lparr> file_name = ''big.bin'', file_type = [],
                                    file_bytes = replicate 52428801 (CHR ''x'') \<rparr>) \<rparr>)
        sampleServer =
     (Failure 413 ''File too large. Maximum size is 50 MB'' ''FILE_TOO_LARGE'', sampleServer)
   \<and> statusOf (fst (uploadHandler sampleConfig sampleRequest sampleServer)) = 201
   \<and> up_shortCode (fst (uploadHandler sampleConfig sampleRequest sampleServer)) = ''AAAAAA''
   \<and> uploadHandler sampleConfig (sampleRequest \<lparr> body := Malformed ''not a form'' \<rparr>) sampleServer =
     (Failure 500 ''Upload failed'' ''not a form'', sampleServer)
   \<and> uploadHandler sampleConfig sampleRequest (sampleServer \<lparr> db := None \<rparr>) =
     (Failure 500 ''Upload failed'' ''Database not initialized'', sampleServer \<lparr> db := None \<rparr>)"
proof -
  note at = uploadHandler_outcomes [where cwd = "''/srv/app''" and envPort = None and s = sampleServer,
      folded sampleConfig_def]
  have c1: "uploadHandler sampleConfig (sampleRequest \<lparr> body := Form NoEntry \<rparr>) sampleServer =
     (Failure 400 ''No file uploaded'' ''MISSING_FILE'', sampleServer)"
    by (rule at [THEN conjunct1, THEN mp]) simp
  have c2: "uploadHandler sampleConfig
        (sampleRequest \<lparr> body := Form (FileEntry \<lparr> file_name = ''big.bin'', file_type = [],
                                    file_bytes = replicate 52428801 (CHR ''x'') \<rparr>) \<rparr>)
        sampleServer =
     (Failure 413 ''File too large. Maximum size is 50 MB'' ''FILE_TOO_LARGE'', sampleServer)"
  proof -
    have big: "body (sampleRequest \<lparr> body := Form (FileEntry \<lparr> file_name = ''big.bin'',
                  file_type = [], file_bytes = replicate 52428801 (CHR ''x'') \<rparr>) \<rparr>) =
               Form (FileEntry \<lparr> file_name = ''big.bin'', file_type = [],
                  file_bytes = replicate 52428801 (CHR ''x'') \<rparr>) \<and>
               50 * 1024 * 1024 < file_size \<lparr> file_name = ''big.bin'', file_type = [],
                  file_bytes = replicate 52428801 (CHR ''x'') \<rparr>"
      by (simp add: file_size_def)
    show ?thesis
      by (rule at [THEN conjunct2, THEN conjunct1, THEN spec, THEN mp, OF big])
  qed
  have pre: "body sampleRequest = Form (FileEntry \<lparr> file_name = ''notes.txt'',
                 file_type = ''text/plain'', file_bytes = ''hello'' \<rparr>) \<and>
             file_size \<lparr> file_name = ''notes.txt'', file_type = ''text/plain'',
                 file_bytes = ''hello'' \<rparr> \<le> 50 * 1024 * 1024 \<and>
             db sampleServer = Some sampleDatabase \<and> (\<forall>k. random sampleRequest k < 62)"
    by (simp add: sampleRequest_def sampleServer_def file_size_def)
  have code: "generateUniqueShortCode sampleConfig (Some sampleDatabase) (random sampleRequest) =
      Inr ''AAAAAA''"
    unfolding sampleConfig_def
    by (simp add: sampleRequest_def zero_draws_free sampleDatabase_def sampleRecord_def)
  have free: "writable (fs sampleServer) \<and> (\<forall>r \<in> set (rows sampleDatabase). shortCode r \<noteq> ''AAAAAA'')"
    by (simp add: sampleServer_def sampleDisk_def sampleDatabase_def sampleRecord_def)
  note inst = at [where req = sampleRequest, THEN conjunct2, THEN conjunct2, THEN conjunct1,
      THEN spec, THEN spec, THEN mp, OF pre]
  have c3: "statusOf (fst (uploadHandler sampleConfig sampleRequest sampleServer)) = 201
      \<and> up_shortCode (fst (uploadHandler sampleConfig sampleRequest sampleServer)) = ''AAAAAA''"
    using inst code free
    apply (elim exE conjE)
    apply simp
    done
  have c4: "uploadHandler sampleConfig (sampleRequest \<lparr> body := Malformed ''not a form'' \<rparr>)
        sampleServer = (Failure 500 ''Upload failed'' ''not a form'', sampleServer)"
    by (rule at [THEN conjunct2, THEN conjunct2, THEN conjunct2, THEN conjunct1, THEN spec,
          THEN mp]) simp
  have closed: "body sampleRequest = Form (FileEntry \<lparr> file_name = ''notes.txt'',
                 file_type = ''text/plain'', file_bytes = ''hello'' \<rparr>) \<and>
             file_size \<lparr> file_name = ''notes.txt'', file_type = ''text/plain'',
                 file_bytes = ''hello'' \<rparr> \<le> 50 * 1024 * 1024 \<and>
             db (sampleServer \<lparr> db := None \<rparr>) = None"
    by (simp add: sampleRequest_def file_size_def)
  have c5: "uploadHandler sampleConfig sampleRequest (sampleServer \<lparr> db := None \<rparr>) =
     (Failure 500 ''Upload failed'' ''Database not initialized'', sampleServer \<lparr> db := None \<rparr>)"
    by (rule uploadHandler_outcomes [where cwd = "''/srv/app''" and envPort = None
          and s = "sampleServer \<lparr> db := None \<rparr>" and req = sampleRequest,
          folded sampleConfig_def, THEN conjunct2, THEN conjunct2, THEN conjunct2, THEN conjunct2,
          THEN spec, THEN mp, OF closed])
  from c1 c2 c3 c4 c5 show ?thesis by (intro conjI) simp_all
qed

lemma collidingServer_db:
  "\<exists>d. db collidingServer = Some d \<and> map shortCode (rows d) = [''AAAAAA'', ''AAAAAAAA'']"
  by (simp add: collidingServer_def sampleUpload_def init_def insertUrl_def)

text \<open>
Claim C5 as stated, every file within the limit yields 201, fails: when the ten
  six-character draws are all taken, the eight-character code is used unchecked; if it
  is taken as well, the insert violates the unique constraint and the answer is 500.
\<close>

theorem uploadHandler_collision_counterexample:
  "(\<exists>f. body sampleRequest = Form (FileEntry f) \<and> file_size f \<le> MAX_FILE_SIZE sampleConfig)
   \<and> fst (uploadHandler sampleConfig sampleRequest collidingServer) =
       Failure 500 ''Upload failed'' ''UNIQUE constraint failed: urls.shortCode''
   \<and> statusOf (fst (uploadHandler sampleConfig sampleRequest collidingServer)) \<noteq> 201"
proof -
  obtain d where d: "db collidingServer = Some d"
      "map shortCode (rows d) = [''AAAAAA'', ''AAAAAAAA'']"
    using collidingServer_db by auto
  have "''AAAAAA'' \<in> set (map shortCode (rows d))" "''AAAAAAAA'' \<in> set (map shortCode (rows d))"
    unfolding d(2) by simp_all
  then have taken: "\<exists>r \<in> set (rows d). shortCode r = ''AAAAAA''"
    and taken8: "\<exists>r \<in> set (rows d). shortCode r = ''AAAAAAAA''"
    by (auto simp: image_iff)
  have code: "generateUniqueShortCode sampleConfig (db collidingServer) (random sampleRequest) =
      Inr ''AAAAAAAA''"
    unfolding sampleConfig_def d(1)
    using zero_draws_taken [OF taken] by (simp add: sampleRequest_def)
  have w: "writable (fs collidingServer)"
    by (simp add: collidingServer_def sampleDisk_def)
  have run: "fst (uploadHandler sampleConfig sampleRequest collidingServer) =
       Failure 500 ''Upload failed'' ''UNIQUE constraint failed: urls.shortCode''"
    using code w taken8 d(1)
    by (simp add: uploadHandler_def sampleRequest_def file_size_def fs_writeFile_def
          insertUrl_def Let_def sampleConfig_def CONFIG_MAX_FILE_SIZE)
  have sz: "\<exists>f. body sampleRequest = Form (FileEntry f) \<and> file_size f \<le> MAX_FILE_SIZE sampleConfig"
    by (simp add: sampleRequest_def file_size_def sampleConfig_def CONFIG_MAX_FILE_SIZE)
  from sz run show ?thesis by simp
qed

text \<open>
Claim C10 does not hold of \<open>GET /file/:filename\<close>: the parameter is joined to the upload
  directory without any check, and \<open>path.join\<close> resolves parent-directory segments. For
  the parameter \<open>../../data/urls.db\<close> the handler reads and returns the database file,
  which lies outside the upload directory.
\<close>

theorem fileHandler_escapes_upload_dir:
  "fileHandler sampleConfig ''../../data/urls.db'' sampleServer =
     (BunFile ''/srv/app/data/urls.db'' ''SQLite format 3'', sampleServer)
   \<and> UPLOAD_DIR sampleConfig = ''/srv/app/public/file''
   \<and> \<not> withinDir (UPLOAD_DIR sampleConfig) ''/srv/app/data/urls.db''"
proof -
  have p: "path_join [''/srv/app/public/file'', ''../../data/urls.db''] = ''/srv/app/data/urls.db''"
    by (simp add: path_join_def path_normalize_def)
  show ?thesis
    by (simp add: fileHandler_def sample_UPLOAD_DIR p fs_access_def bunFile_def sampleServer_def
          sampleDisk_def withinDir_def Let_def)
qed

end
